theory Spec2Isabelle
  imports Complex_Main "HOL-Library.Word"
begin

section \<open>Typed arrays\<close>

text \<open>
  A \<open>Uint8Array\<close> is a view on an \<open>ArrayBuffer\<close>: the bytes of the buffer, the offset of
  the view in it and the number of elements of the view (\<open>len\<close>, the array's \<open>length\<close>).
  \<open>elems\<close> are the elements the view shows (\<open>a[0]\<close>, \<open>a[1]\<close>, ...); \<open>array.buffer\<close> is
  the whole underlying buffer.
\<close>

type_synonym byte = "8 word"

type_synonym ArrayBuffer = "byte list"

record Uint8Array =
  buffer :: ArrayBuffer
  byteOffset :: nat
  len :: nat

text \<open>
  What a \<open>throw\<close> hands to the caller: an error object with its message, or a bare
  string (\<open>throw 'bad-receiver'\<close>). A \<open>TypeError\<close> is what the runtime throws when a
  property of \<open>null\<close> or \<open>undefined\<close> is read.
\<close>

datatype error = RangeError string | Error string | TypeError string | Thrown string

definition elems :: "Uint8Array \<Rightarrow> byte list" where
  "elems a = take (len a) (drop (byteOffset a) (buffer a))"

text \<open>A view lies inside its buffer; every array the runtime hands out does.\<close>

definition wf_array :: "Uint8Array \<Rightarrow> bool" where
  "wf_array a = (byteOffset a + len a \<le> length (buffer a))"

text \<open>\<open>new Uint8Array(buffer)\<close>: the view of a whole buffer.\<close>

definition Uint8Array_on :: "ArrayBuffer \<Rightarrow> Uint8Array" where
  "Uint8Array_on b = \<lparr>buffer = b, byteOffset = 0, len = length b\<rparr>"

text \<open>\<open>Uint8Array.of(...)\<close> and \<open>new Uint8Array([...])\<close>: a fresh array with the given elements.\<close>

definition Uint8Array_of :: "byte list \<Rightarrow> Uint8Array" where
  "Uint8Array_of bs = Uint8Array_on bs"

text \<open>\<open>new ArrayBuffer(length)\<close>: zero-filled; a negative length is a RangeError.\<close>

definition new_ArrayBuffer :: "int \<Rightarrow> error + ArrayBuffer" where
  "new_ArrayBuffer n =
     (if n < 0 then Inl (RangeError ''Invalid array buffer length'')
      else Inr (replicate (nat n) 0))"

text \<open>\<open>new Uint8Array(length)\<close>: a fresh zero-filled array.\<close>

definition new_Uint8Array :: "int \<Rightarrow> error + Uint8Array" where
  "new_Uint8Array n =
     (case new_ArrayBuffer n of Inl e \<Rightarrow> Inl e | Inr b \<Rightarrow> Inr (Uint8Array_on b))"

text \<open>
  \<open>new DataView(buffer).setUint8(i, v)\<close> and \<open>getUint8(i)\<close>: byte \<open>i\<close> of the buffer
  itself; outside the buffer both throw a RangeError.
\<close>

definition setUint8 :: "ArrayBuffer \<Rightarrow> nat \<Rightarrow> byte \<Rightarrow> error + ArrayBuffer" where
  "setUint8 b i v =
     (if i < length b then Inr (b[i := v])
      else Inl (RangeError ''Offset is outside the bounds of the DataView''))"

definition getUint8 :: "ArrayBuffer \<Rightarrow> nat \<Rightarrow> error + byte" where
  "getUint8 b i =
     (if i < length b then Inr (b ! i)
      else Inl (RangeError ''Offset is outside the bounds of the DataView''))"

text \<open>
  \<open>a.slice(start, end)\<close>: a fresh array with the elements from \<open>start\<close> up to \<open>end\<close>; a
  negative index counts from the end, and both are clamped to the array.
\<close>

definition relative_index :: "int \<Rightarrow> nat \<Rightarrow> nat" where
  "relative_index k n = (if k < 0 then nat (max (int n + k) 0) else min (nat k) n)"

definition slice :: "Uint8Array \<Rightarrow> int \<Rightarrow> int \<Rightarrow> Uint8Array" where
  "slice a start end' =
     (let from = relative_index start (len a);
          to = relative_index end' (len a)
      in Uint8Array_on (take (to - from) (drop from (elems a))))"

text \<open>\<open>a.slice(start)\<close>: up to the end of the array.\<close>

definition slice_from :: "Uint8Array \<Rightarrow> int \<Rightarrow> Uint8Array" where
  "slice_from a start = slice a start (int (len a))"

text \<open>
  \<open>target.set(source, offset)\<close>: copies the elements of \<open>source\<close> into \<open>target\<close> from
  element \<open>offset\<close> on; a source that does not fit is a RangeError.
\<close>

definition set_at :: "Uint8Array \<Rightarrow> Uint8Array \<Rightarrow> int \<Rightarrow> error + Uint8Array" where
  "set_at target source off =
     (if off < 0 \<or> off + int (len source) > int (len target)
      then Inl (RangeError ''offset is out of bounds'')
      else
        let p = byteOffset target + nat off
        in Inr (target\<lparr>buffer :=
                  take p (buffer target) @ elems source @
                  drop (p + len source) (buffer target)\<rparr>))"

text \<open>
  \<open>xs[i] = v\<close> on a JavaScript array of length \<open>n\<close>: overwrites element \<open>i < n\<close> and
  appends at \<open>i = n\<close>. (An index past \<open>n\<close> would leave holes, which a list cannot show;
  \<open>getChunks\<close> only assigns at \<open>i = n\<close>: it starts from the empty list at index 0 and
  each round appends one chunk and adds one to the index.)
\<close>

definition assign_index :: "'a list \<Rightarrow> int \<Rightarrow> 'a \<Rightarrow> 'a list" where
  "assign_index xs i v =
     (if 0 \<le> i \<and> nat i < length xs then xs[nat i := v] else xs @ [v])"

section \<open>Chunkifier\<close>

record Chunkifier =
  array :: Uint8Array
  chunkSize :: int
  chunks :: "Uint8Array list option"

definition Chunkifier_new :: "Uint8Array \<Rightarrow> int \<Rightarrow> error + Chunkifier" where
  "Chunkifier_new arr n =
     (if len arr < 1 then Inl (RangeError ''Array may not be empty'')
      else if n < 2 then Inl (RangeError ''Chunk size must be larger than 1'')
      else Inr \<lparr>array = arr, chunkSize = n, chunks = None\<rparr>)"

definition offset :: "Chunkifier \<Rightarrow> int \<Rightarrow> int" where
  "offset c chunkIndex = chunkIndex * (chunkSize c - 1)"

definition hasNext :: "Chunkifier \<Rightarrow> int \<Rightarrow> bool" where
  "hasNext c index = (offset c index < int (len (array c)))"

text \<open>
  One round of the loop of \<open>getChunks\<close>: the chunk for \<open>index\<close>, or the error of the
  typed-array call that throws.
\<close>

definition make_chunk :: "Chunkifier \<Rightarrow> int \<Rightarrow> error + Uint8Array" where
  "make_chunk c index =
     (let off = offset c index;
          length' = min (chunkSize c) (int (len (array c)) + 1 - off)
      in case new_ArrayBuffer length' of
           Inl e \<Rightarrow> Inl e
         | Inr buf \<Rightarrow>
             (case setUint8 buf 0 (if hasNext c (index + 1) then 1 else 0) of
                Inl e \<Rightarrow> Inl e
              | Inr buf' \<Rightarrow>
                  (let arr = Uint8Array_on buf';
                       end' = min (offset c (index + 1)) (int (len (array c)));
                       chunk = slice (array c) off end'
                   in set_at arr chunk 1)))"

text \<open>
  The \<open>while\<close> loop of \<open>getChunks\<close>. It returns the chunk list built so far together with
  the error that stopped it, if any; \<open>None\<close> is a loop that never ends.
\<close>

partial_function (option) getChunks_loop ::
  "Chunkifier \<Rightarrow> int \<Rightarrow> Uint8Array list \<Rightarrow> (error option \<times> Uint8Array list) option" where
  "getChunks_loop c index acc =
     (if hasNext c index then
        (case make_chunk c index of
           Inl e \<Rightarrow> Some (Some e, acc)
         | Inr arr \<Rightarrow> getChunks_loop c (index + 1) (assign_index acc index arr))
      else Some (None, acc))"

declare getChunks_loop.simps [code]

text \<open>
  \<open>getChunks\<close>: the cached list if there is one, else the list the loop builds, which
  is stored in \<open>this.chunks\<close> (also when the loop throws half way).
\<close>

definition getChunks :: "Chunkifier \<Rightarrow> ((error + Uint8Array list) \<times> Chunkifier) option" where
  "getChunks c =
     (case chunks c of
        Some cs \<Rightarrow> Some (Inr cs, c)
      | None \<Rightarrow>
          (case getChunks_loop c 0 [] of
             None \<Rightarrow> None
           | Some (None, cs) \<Rightarrow> Some (Inr cs, c\<lparr>chunks := Some cs\<rparr>)
           | Some (Some e, cs) \<Rightarrow> Some (Inl e, c\<lparr>chunks := Some cs\<rparr>)))"

section \<open>Unchunkifier\<close>

text \<open>A number printed in decimal, as string concatenation prints it.\<close>

fun show_nat :: "nat \<Rightarrow> string" where
  "show_nat n =
     (if n < 10 then [''0123456789'' ! n]
      else show_nat (n div 10) @ [''0123456789'' ! (n mod 10)])"

text \<open>What \<open>add\<close> hands back: a boolean, or \<open>undefined\<close> from a bare \<open>return\<close>.\<close>

datatype add_result = Boolean bool | Undefined

record Unchunkifier =
  chunks :: "Uint8Array list"
  length' :: int
  done' :: bool
  merged :: "Uint8Array option"

definition Unchunkifier_new :: Unchunkifier where
  "Unchunkifier_new = \<lparr>chunks = [], length' = 0, done' = False, merged = None\<rparr>"

text \<open>
  \<open>add\<close>: the value returned or the error thrown, and the object afterwards. The chunk
  is pushed and counted before its flag is looked at; the flag is byte 0 of
  \<open>array.buffer\<close>.
\<close>

definition add :: "Unchunkifier \<Rightarrow> Uint8Array \<Rightarrow> (error + add_result) \<times> Unchunkifier" where
  "add u arr =
     (if done' u then (Inl (Error ''Cannot add more chunks, already complete''), u)
      else if len arr = 0 then (Inr Undefined, u)
      else
        let u1 = u\<lparr>chunks := Unchunkifier.chunks u @ [arr],
                    length' := length' u + (int (len arr) - 1)\<rparr>
        in case getUint8 (buffer arr) 0 of
             Inl e \<Rightarrow> (Inl e, u1)
           | Inr moreChunks \<Rightarrow>
               if moreChunks = 0 then (Inr (Boolean True), u1\<lparr>done' := True\<rparr>)
               else if moreChunks = 1 then (Inr (Boolean False), u1)
               else (Inl (Error (''Invalid chunk received: '' @ show_nat (unat moreChunks))), u1))"

text \<open>The \<open>for\<close> loop of \<open>merge\<close>: every chunk without its first byte, one after the other.\<close>

fun merge_loop :: "Uint8Array \<Rightarrow> int \<Rightarrow> Uint8Array list \<Rightarrow> error + Uint8Array" where
  "merge_loop arr off [] = Inr arr"
| "merge_loop arr off (chunk # rest) =
     (case set_at arr (slice_from chunk 1) off of
        Inl e \<Rightarrow> Inl e
      | Inr arr' \<Rightarrow> merge_loop arr' (off + (int (len chunk) - 1)) rest)"

definition merge :: "Unchunkifier \<Rightarrow> (error + Uint8Array) \<times> Unchunkifier" where
  "merge u =
     (if \<not> done' u then (Inl (Error ''Chunks not yet complete''), u)
      else
        (case merged u of
           Some m \<Rightarrow> (Inr m, u)
         | None \<Rightarrow>
             (case new_Uint8Array (length' u) of
                Inl e \<Rightarrow> (Inl e, u)
              | Inr arr \<Rightarrow>
                  (case merge_loop arr 0 (Unchunkifier.chunks u) of
                     Inl e \<Rightarrow> (Inl e, u)
                   | Inr arr' \<Rightarrow> (Inr arr', u\<lparr>merged := Some arr'\<rparr>)))))"

text \<open>
  Feeding a list of chunks into an unchunkifier, one \<open>add\<close> after the other, as
  \<open>for (let chunk of chunks) { unchunkifier.add(chunk); }\<close> does: the first error ends it.
\<close>

fun add_all :: "Unchunkifier \<Rightarrow> Uint8Array list \<Rightarrow> error + Unchunkifier" where
  "add_all u [] = Inr u"
| "add_all u (c # cs) =
     (case add u c of
        (Inl e, _) \<Rightarrow> Inl e
      | (Inr _, u') \<Rightarrow> add_all u' cs)"

section \<open>Signaling: data\<close>

type_synonym bytes = "byte list"

datatype State =
  State_new | State_ws_connecting | State_server_handshake | State_peer_handshake
  | State_open | State_closing | State_closed

datatype Role = Initiator | Responder

datatype ResponderState = R_new | R_token_received | R_key_received

datatype InitiatorHandshakeState =
  I_new | I_token_sent | I_key_sent | I_auth_received

text \<open>The handlers a \<open>message\<close> listener of the socket can be.\<close>

datatype Listener = OnInitServerHandshake | OnPeerHandshakeMessage | OnMessage

text \<open>
  The calls the engine makes on its collaborators, in the order it makes them: on the
  socket \<open>this.ws\<close> and on the client object.
\<close>

datatype Effect =
  WsSend bytes | WsClose | WsRemoveMessageListener Listener | WsAddMessageListener Listener
  | ClientOnConnected

subsection \<open>Collaborators\<close>

text \<open>
  Modelled from the spec: the classes \<open>KeyStore\<close>, \<open>AuthToken\<close>, \<open>Box\<close>, \<open>Cookie\<close>,
  \<open>CookiePair\<close> and \<open>Nonce\<close> (\<open>keystore.ts\<close>, \<open>cookie.ts\<close>, \<open>nonce.ts\<close>) and the message
  interfaces (\<open>messages.d.ts\<close>) are not among the sources. A key store owns a secret key
  and the public key derived from it; an auth token owns a secret; a box is a nonce and
  a ciphertext; a cookie is 16 bytes, compared byte by byte; a nonce carries a cookie,
  the source and destination addresses and the overflow and sequence numbers.
\<close>

record KeyStore =
  secretKeyBytes :: bytes
  publicKeyArray :: bytes

record AuthToken =
  keyBytes :: bytes

record Box =
  nonce :: bytes
  ciphertext :: bytes

type_synonym Cookie = bytes

record CookiePair =
  ours :: Cookie
  theirs :: Cookie

record Nonce =
  cookie :: Cookie
  overflow :: int
  sequenceNumber :: int
  source :: nat
  destination :: nat

text \<open>
  Modelled from the spec: a decoded message is a map with a \<open>type\<close> discriminator
  (absent when the decoded value has none) and the fields of its schema: \<open>key\<close> of
  \<open>server-hello\<close>, \<open>client-hello\<close>, \<open>token\<close> and \<open>key\<close>; \<open>your_cookie\<close> of \<open>client-auth\<close>,
  \<open>server-auth\<close> and \<open>auth\<close>; \<open>id\<close> of \<open>new-responder\<close> and \<open>drop-responder\<close>. A field
  that a message does not carry is never read by the code modelled here once the type
  has been checked; it is left empty.
\<close>

record Message =
  type' :: "string option"
  key :: bytes
  your_cookie :: bytes
  id :: nat

text \<open>
  Modelled from the spec: what the engine calls and is not among the sources, taken as
  parameters. Parsing and serialising nonces and boxes, public-key and secret-key
  authenticated encryption (decryption throws \<open>'decryption-failed'\<close>), the MessagePack
  codec, and the random source: \<open>randomUint32\<close>, \<open>new KeyStore()\<close> and \<open>new Cookie()\<close>
  draw from a tape, indexed by the number of draws made so far.
\<close>

record Collaborators =
  Nonce_fromArrayBuffer :: "bytes \<Rightarrow> Nonce"
  Nonce_toArrayBuffer :: "Nonce \<Rightarrow> bytes"
  Box_fromUint8Array :: "bytes \<Rightarrow> nat \<Rightarrow> error + Box"
  Box_toUint8Array :: "Box \<Rightarrow> bytes"
  KeyStore_encrypt :: "KeyStore \<Rightarrow> bytes \<Rightarrow> bytes \<Rightarrow> bytes option \<Rightarrow> Box"
  KeyStore_decrypt :: "KeyStore \<Rightarrow> Box \<Rightarrow> bytes option \<Rightarrow> error + bytes"
  AuthToken_encrypt :: "AuthToken \<Rightarrow> bytes \<Rightarrow> bytes \<Rightarrow> Box"
  AuthToken_decrypt :: "AuthToken \<Rightarrow> Box \<Rightarrow> error + bytes"
  msgpack_encode :: "Message \<Rightarrow> bytes"
  msgpack_decode :: "bytes \<Rightarrow> error + Message"
  randomUint32 :: "nat \<Rightarrow> 32 word"
  KeyStore_new :: "nat \<Rightarrow> KeyStore"
  Cookie_new :: "nat \<Rightarrow> Cookie"

subsection \<open>CombinedSequence\<close>

record CombinedSequence =
  sequenceNumber :: int
  overflow :: int

definition SEQUENCE_NUMBER_MAX :: int where
  "SEQUENCE_NUMBER_MAX = 0x100000000"

definition OVERFLOW_MAX :: int where
  "OVERFLOW_MAX = 0x100000"

text \<open>The constructor; \<open>r\<close> is what \<open>randomUint32()\<close> returns.\<close>

definition CombinedSequence_new :: "32 word \<Rightarrow> CombinedSequence" where
  "CombinedSequence_new r = \<lparr>sequenceNumber = uint r, overflow = 0\<rparr>"

text \<open>
  \<open>next()\<close>: the pair returned or the error thrown, and the object afterwards (the
  counters are written before the throw).
\<close>

definition CombinedSequence_next ::
  "CombinedSequence \<Rightarrow> (error + CombinedSequence) \<times> CombinedSequence" where
  "CombinedSequence_next c =
     (if sequenceNumber c + 1 \<ge> SEQUENCE_NUMBER_MAX then
        (let c1 = c\<lparr>sequenceNumber := 0, overflow := overflow c + 1\<rparr>
         in if overflow c1 \<ge> OVERFLOW_MAX then (Inl (Error ''overflow-overflow''), c1)
            else (Inr c1, c1))
      else
        (let c1 = c\<lparr>sequenceNumber := sequenceNumber c + 1\<rparr>
         in (Inr c1, c1)))"

subsection \<open>Responder records and the responder map\<close>

record Responder =
  id :: nat
  permanentKey :: "bytes option"
  sessionKey :: "bytes option"
  keyStore :: KeyStore
  state :: ResponderState
  combinedSequence :: CombinedSequence

text \<open>
  \<open>new Responder(id)\<close>, made at draw \<open>n\<close> of the tape: the key store first, then the
  sequence number; two draws.
\<close>

definition Responder_new :: "Collaborators \<Rightarrow> nat \<Rightarrow> nat \<Rightarrow> Responder" where
  "Responder_new E n i =
     \<lparr>Responder.id = i, permanentKey = None, sessionKey = None, keyStore = KeyStore_new E n,
      state = R_new, combinedSequence = CombinedSequence_new (randomUint32 E (n + 1))\<rparr>"

text \<open>
  A JavaScript \<open>Map\<close> keeps its entries in insertion order: \<open>set\<close> overwrites the value
  of a key that is there and appends a new one at the end.
\<close>

type_synonym 'v Map = "(nat \<times> 'v) list"

definition Map_get :: "'v Map \<Rightarrow> nat \<Rightarrow> 'v option" where
  "Map_get m k = map_of m k"

definition Map_has :: "'v Map \<Rightarrow> nat \<Rightarrow> bool" where
  "Map_has m k = (map_of m k \<noteq> None)"

fun Map_set :: "'v Map \<Rightarrow> nat \<Rightarrow> 'v \<Rightarrow> 'v Map" where
  "Map_set [] k v = [(k, v)]"
| "Map_set (p # ps) k v = (if fst p = k then (k, v) # ps else p # Map_set ps k v)"

definition Map_delete :: "'v Map \<Rightarrow> nat \<Rightarrow> 'v Map" where
  "Map_delete m k = filter (\<lambda>p. fst p \<noteq> k) m"

definition Map_keys :: "'v Map \<Rightarrow> nat list" where
  "Map_keys m = map fst m"

subsection \<open>The engine\<close>

text \<open>
  The fields of the class, \<open>null\<close> as \<open>None\<close>. Two fields are of the model: \<open>trace\<close>, the
  calls made on the socket and the client so far, and \<open>entropy\<close>, the number of draws
  made from the random tape. The socket itself is only a reference here; the root
  scope and the client object of the class hold nothing the engine reads and are left
  out.
\<close>

datatype WebSocket = WebSocket

record Signaling =
  host :: string
  port :: nat
  protocol :: string
  ws :: "WebSocket option"
  state :: State
  serverKey :: "bytes option"
  permanentKey :: KeyStore
  sessionKey :: "KeyStore option"
  authToken :: AuthToken
  role :: Role
  logTag :: string
  address :: nat
  cookiePair :: "CookiePair option"
  serverCombinedSequence :: CombinedSequence
  responders :: "Responder Map option"
  responder :: "Responder option"
  initiatorPermanentKey :: "bytes option"
  initiatorSessionKey :: "bytes option"
  initiatorConnected :: "bool option"
  initiatorHandshakeState :: "InitiatorHandshakeState option"
  initiatorCombinedSequence :: CombinedSequence
  trace :: "Effect list"
  entropy :: nat

definition SALTYRTC_ADDR_UNKNOWN :: nat where "SALTYRTC_ADDR_UNKNOWN = 0x00"
definition SALTYRTC_ADDR_SERVER :: nat where "SALTYRTC_ADDR_SERVER = 0x00"
definition SALTYRTC_ADDR_INITIATOR :: nat where "SALTYRTC_ADDR_INITIATOR = 0x01"

section \<open>Signaling: operations\<close>

text \<open>
  A method of the engine runs on the engine's fields and either returns a value or
  throws; the fields it wrote before a throw stay written.
\<close>

type_synonym 'a Run = "Signaling \<Rightarrow> (error + 'a) \<times> Signaling"

definition ok :: "'a \<Rightarrow> 'a Run" where
  "ok a s = (Inr a, s)"

definition throw :: "error \<Rightarrow> 'a Run" where
  "throw e s = (Inl e, s)"

definition lift :: "error + 'a \<Rightarrow> 'a Run" where
  "lift r s = (r, s)"

definition seq :: "'a Run \<Rightarrow> ('a \<Rightarrow> 'b Run) \<Rightarrow> 'b Run" where
  "seq m f s = (case m s of (Inl e, s') \<Rightarrow> (Inl e, s') | (Inr a, s') \<Rightarrow> f a s')"

definition modify :: "(Signaling \<Rightarrow> Signaling) \<Rightarrow> unit Run" where
  "modify f s = (Inr (), f s)"

text \<open>A call of a method of \<open>this.ws\<close>; on \<open>null\<close> the runtime throws.\<close>

definition ws_call :: "Effect \<Rightarrow> unit Run" where
  "ws_call e s =
     (case ws s of
        None \<Rightarrow> (Inl (TypeError ''this.ws is null''), s)
      | Some _ \<Rightarrow> (Inr (), s\<lparr>trace := trace s @ [e]\<rparr>))"

definition client_call :: "Effect \<Rightarrow> unit Run" where
  "client_call e s = (Inr (), s\<lparr>trace := trace s @ [e]\<rparr>)"

subsection \<open>validateNonce, decodeMessage\<close>

definition validateNonce :: "Nonce \<Rightarrow> nat option \<Rightarrow> nat option \<Rightarrow> error + unit" where
  "validateNonce n dest src =
     (if (case dest of None \<Rightarrow> False | Some d \<Rightarrow> destination n \<noteq> d)
      then Inl (Thrown ''bad-nonce-destination'')
      else if (case src of None \<Rightarrow> False | Some a \<Rightarrow> source n \<noteq> a)
      then Inl (Thrown ''bad-nonce-source'')
      else Inr ())"

definition decodeMessage :: "Collaborators \<Rightarrow> bytes \<Rightarrow> string option \<Rightarrow> error + Message" where
  "decodeMessage E d ty =
     (case msgpack_decode E d of
        Inl e \<Rightarrow> Inl e
      | Inr msg \<Rightarrow>
          if type' msg = None then Inl (Thrown ''bad-message'')
          else if (case ty of None \<Rightarrow> False | Some t \<Rightarrow> type' msg \<noteq> Some t)
          then Inl (Thrown ''bad-message-type'')
          else Inr msg)"

subsection \<open>buildPacket\<close>

text \<open>
  "Choose proper sequence number": for the server and the initiator the sequence is
  advanced with \<open>next()\<close> and its result is taken; for a responder the responder's
  \<open>combinedSequence\<close> object itself is taken, as it stands.
\<close>

definition choose_csn :: "nat \<Rightarrow> CombinedSequence Run" where
  "choose_csn receiver s =
     (if receiver = SALTYRTC_ADDR_SERVER then
        (case CombinedSequence_next (serverCombinedSequence s) of
           (r, c) \<Rightarrow> (r, s\<lparr>serverCombinedSequence := c\<rparr>))
      else if receiver = SALTYRTC_ADDR_INITIATOR then
        (case CombinedSequence_next (initiatorCombinedSequence s) of
           (r, c) \<Rightarrow> (r, s\<lparr>initiatorCombinedSequence := c\<rparr>))
      else if receiver \<ge> 0x02 \<and> receiver \<le> 0xff then
        (case responders s of
           None \<Rightarrow> (Inl (TypeError ''this.responders is null''), s)
         | Some m \<Rightarrow>
             (case Map_get m receiver of
                None \<Rightarrow> (Inl (TypeError ''this.responders.get(...) is undefined''), s)
              | Some r \<Rightarrow> (Inr (combinedSequence r), s)))
      else (Inl (Thrown ''bad-receiver''), s))"

text \<open>"Create nonce": the nonce of the packet.\<close>

definition create_nonce :: "nat \<Rightarrow> Nonce Run" where
  "create_nonce receiver =
     seq (choose_csn receiver) (\<lambda>csn s.
       case cookiePair s of
         None \<Rightarrow> (Inl (TypeError ''this.cookiePair is null''), s)
       | Some cp \<Rightarrow>
           (Inr \<lparr>cookie = ours cp, Nonce.overflow = overflow csn,
                 Nonce.sequenceNumber = sequenceNumber csn,
                 source = address s, destination = receiver\<rparr>, s))"

text \<open>"Encrypt if desired": the key is chosen by receiver and message type.\<close>

definition encrypt_packet ::
  "Collaborators \<Rightarrow> Message \<Rightarrow> nat \<Rightarrow> bytes \<Rightarrow> bytes \<Rightarrow> bytes Run" where
  "encrypt_packet E message receiver d nonceBytes s =
     (if receiver = SALTYRTC_ADDR_SERVER then
        (Inr (Box_toUint8Array E (KeyStore_encrypt E (permanentKey s) d nonceBytes (serverKey s))), s)
      else if receiver = SALTYRTC_ADDR_INITIATOR then
        (if type' message = Some ''token'' then
           (Inr (Box_toUint8Array E (AuthToken_encrypt E (authToken s) d nonceBytes)), s)
         else if type' message = Some ''key'' then
           (Inr (Box_toUint8Array E
                  (KeyStore_encrypt E (permanentKey s) d nonceBytes (initiatorPermanentKey s))), s)
         else
           (case sessionKey s of
              None \<Rightarrow> (Inl (TypeError ''this.sessionKey is null''), s)
            | Some sk \<Rightarrow>
                (Inr (Box_toUint8Array E
                       (KeyStore_encrypt E sk d nonceBytes (initiatorSessionKey s))), s)))
      else if receiver \<ge> 0x02 \<and> receiver \<le> 0xff then
        (case responders s of
           None \<Rightarrow> (Inl (TypeError ''this.responders is null''), s)
         | Some m \<Rightarrow>
             (case Map_get m receiver of
                None \<Rightarrow> (Inl (TypeError ''responder is undefined''), s)
              | Some r \<Rightarrow>
                  if type' message = Some ''key'' then
                    (Inr (Box_toUint8Array E
                           (KeyStore_encrypt E (permanentKey s) d nonceBytes
                              (Responder.permanentKey r))), s)
                  else
                    (Inr (Box_toUint8Array E
                           (KeyStore_encrypt E (keyStore r) d nonceBytes
                              (Responder.sessionKey r))), s)))
      else (Inl (Thrown ''bad-receiver''), s))"

definition buildPacket :: "Collaborators \<Rightarrow> Message \<Rightarrow> nat \<Rightarrow> bool \<Rightarrow> bytes Run" where
  "buildPacket E message receiver encrypt =
     seq (create_nonce receiver) (\<lambda>n.
       let nonceBytes = Nonce_toArrayBuffer E n;
           d = msgpack_encode E message
       in if encrypt then encrypt_packet E message receiver d nonceBytes
          else ok (nonceBytes @ d))"

subsection \<open>resetConnection\<close>

definition resetConnection :: "Collaborators \<Rightarrow> Signaling \<Rightarrow> Signaling" where
  "resetConnection E s =
     (let s1 = s\<lparr>state := State_new,
                 serverCombinedSequence := CombinedSequence_new (randomUint32 E (entropy s)),
                 entropy := entropy s + 1\<rparr>;
          s2 = (if ws s1 \<noteq> None then s1\<lparr>trace := trace s1 @ [WsClose]\<rparr> else s1)
      in s2\<lparr>ws := None\<rparr>)"

subsection \<open>The messages the engine sends\<close>

definition message_of_type :: "string \<Rightarrow> Message" where
  "message_of_type t = \<lparr>type' = Some t, key = [], your_cookie = [], id = 0\<rparr>"

definition Token_message :: "bytes \<Rightarrow> Message" where
  "Token_message k = (message_of_type ''token'')\<lparr>key := k\<rparr>"

definition Key_message :: "bytes \<Rightarrow> Message" where
  "Key_message k = (message_of_type ''key'')\<lparr>key := k\<rparr>"

definition Auth_message :: "Cookie \<Rightarrow> Message" where
  "Auth_message c = (message_of_type ''auth'')\<lparr>your_cookie := c\<rparr>"

definition DropResponder_message :: "nat \<Rightarrow> Message" where
  "DropResponder_message i = (message_of_type ''drop-responder'')\<lparr>Message.id := i\<rparr>"

subsection \<open>sendToken\<close>

definition sendToken :: "Collaborators \<Rightarrow> unit Run" where
  "sendToken E s =
     seq (buildPacket E (Token_message (publicKeyArray (permanentKey s))) SALTYRTC_ADDR_INITIATOR True)
       (\<lambda>packet.
          seq (modify (\<lambda>s. if role s = Responder
                            then s\<lparr>initiatorHandshakeState := Some I_token_sent\<rparr> else s))
            (\<lambda>_. ws_call (WsSend packet))) s"

subsection \<open>serverHandshake: the server-hello block\<close>

text \<open>
  \<open>do { cookie = new Cookie(); } while (cookie.equals(nonce.cookie));\<close> from draw \<open>n\<close> of
  the tape on: the cookie kept and the number of draws made after it. \<open>None\<close> is a loop
  that never ends.
\<close>

partial_function (option) generate_cookie ::
  "Collaborators \<Rightarrow> Cookie \<Rightarrow> nat \<Rightarrow> (Cookie \<times> nat) option" where
  "generate_cookie E their n =
     (let c = Cookie_new E n
      in if c = their then generate_cookie E their (n + 1) else Some (c, n + 1))"

declare generate_cookie.simps [code]

text \<open>
  The first block of \<open>serverHandshake\<close>, "Process server-hello", on the first frame
  of the connection. (The blocks after it, which send \<open>client-hello\<close> and \<open>client-auth\<close>
  and wait for \<open>server-auth\<close>, are not modelled.)
\<close>

definition serverHandshake_hello ::
  "Collaborators \<Rightarrow> bytes \<Rightarrow> Signaling \<Rightarrow> ((error + unit) \<times> Signaling) option" where
  "serverHandshake_hello E buf s =
     (let n = Nonce_fromArrayBuffer E (take 24 buf);
          payload = drop 24 buf
      in case msgpack_decode E payload of
           Inl e \<Rightarrow> Some (Inl e, s)
         | Inr serverHello \<Rightarrow>
             (case validateNonce n (Some (address s)) (Some 0x00) of
                Inl e \<Rightarrow> Some (Inl e, s)
              | Inr _ \<Rightarrow>
                  if type' serverHello \<noteq> Some ''server-hello''
                  then Some (Inl (Thrown ''bad-message-type''), s)
                  else
                    (let s1 = s\<lparr>serverKey := Some (key serverHello)\<rparr>
                     in case generate_cookie E (cookie n) (entropy s1) of
                          None \<Rightarrow> None
                        | Some (c, k) \<Rightarrow>
                            Some (Inr (),
                                  s1\<lparr>cookiePair := Some \<lparr>ours = c, theirs = cookie n\<rparr>,
                                     entropy := k\<rparr>))))"

subsection \<open>onPeerHandshakeMessage\<close>

text \<open>The closure \<open>abort\<close>: it always throws.\<close>

definition abort :: "Collaborators \<Rightarrow> 'a Run" where
  "abort E =
     seq (ws_call (WsRemoveMessageListener OnPeerHandshakeMessage)) (\<lambda>_ s.
       (Inl (Error ''Aborting due to a protocol error''), resetConnection E s))"

text \<open>
  The closure \<open>decrypt\<close>, given what \<open>keyStore.decrypt(box, otherKey)\<close> did: the
  plaintext is returned, \<open>'decryption-failed'\<close> aborts, anything else is thrown on.
\<close>

definition decrypt :: "Collaborators \<Rightarrow> error + bytes \<Rightarrow> bytes Run" where
  "decrypt E r =
     (case r of
        Inr d \<Rightarrow> ok d
      | Inl err \<Rightarrow> if err = Thrown ''decryption-failed'' then abort E else throw err)"

definition assertType :: "Collaborators \<Rightarrow> Message \<Rightarrow> string \<Rightarrow> unit Run" where
  "assertType E message t = (if type' message \<noteq> Some t then abort E else ok ())"

text \<open>\<open>if (!cookie.equals(this.cookiePair.ours)) abort()\<close> on the cookie of an \<open>auth\<close> message.\<close>

definition verify_cookie :: "Collaborators \<Rightarrow> Cookie \<Rightarrow> unit Run" where
  "verify_cookie E c s =
     (case cookiePair s of
        None \<Rightarrow> (Inl (TypeError ''this.cookiePair is null''), s)
      | Some cp \<Rightarrow> if c \<noteq> ours cp then abort E s else (Inr (), s))"

text \<open>\<open>if (nonce.cookie.equals(this.cookiePair.ours)) abort()\<close>: "ensure that cookies are different".\<close>

definition ensure_cookies_differ :: "Collaborators \<Rightarrow> Cookie \<Rightarrow> unit Run" where
  "ensure_cookies_differ E c s =
     (case cookiePair s of
        None \<Rightarrow> (Inl (TypeError ''this.cookiePair is null''), s)
      | Some cp \<Rightarrow> if c = ours cp then abort E s else (Inr (), s))"

text \<open>A frame from the server (source \<open>0x00\<close>).\<close>

definition onServerMessage :: "Collaborators \<Rightarrow> bytes \<Rightarrow> unit Run" where
  "onServerMessage E bs =
     seq (lift (Box_fromUint8Array E bs 24)) (\<lambda>box.
     seq (\<lambda>s. (KeyStore_decrypt E (permanentKey s) box (serverKey s), s)) (\<lambda>decrypted.
     seq (lift (decodeMessage E decrypted None)) (\<lambda>message.
       if type' message = Some ''new-responder'' then
         (\<lambda>s. case responders s of
                 None \<Rightarrow> (Inl (TypeError ''this.responders is null''), s)
               | Some m \<Rightarrow>
                   if \<not> Map_has m (Message.id message)
                   then (Inr (),
                         s\<lparr>responders :=
                              Some (Map_set m (Message.id message)
                                      (Responder_new E (entropy s) (Message.id message))),
                           entropy := entropy s + 2\<rparr>)
                   else (Inr (), s))
       else if type' message = Some ''new-initiator'' then
         seq (modify (\<lambda>s. s\<lparr>initiatorConnected := Some True\<rparr>)) (\<lambda>_. sendToken E)
       else ok ())))"

text \<open>A frame from the initiator (source \<open>0x01\<close>): we are the responder.\<close>

definition onInitiatorMessage :: "Collaborators \<Rightarrow> bytes \<Rightarrow> unit Run" where
  "onInitiatorMessage E bs =
     seq (\<lambda>s. if role s \<noteq> Responder then abort E s else (Inr (), s)) (\<lambda>_.
     seq (lift (Box_fromUint8Array E bs 24)) (\<lambda>box.
     seq (\<lambda>s. if initiatorHandshakeState s = Some I_token_sent
               then decrypt E (KeyStore_decrypt E (permanentKey s) box (initiatorPermanentKey s)) s
               else (case sessionKey s of
                       None \<Rightarrow> (Inl (TypeError ''this.sessionKey is null''), s)
                     | Some sk \<Rightarrow>
                         decrypt E (KeyStore_decrypt E sk box (initiatorSessionKey s)) s))
       (\<lambda>decrypted.
     let n = Nonce_fromArrayBuffer E (Box.nonce box) in
     seq (lift (decodeMessage E decrypted None)) (\<lambda>message s.
       if initiatorHandshakeState s = Some I_token_sent then
         (seq (assertType E message ''key'') (\<lambda>_ s.
            let ks = KeyStore_new E (entropy s) in
            (seq (modify (\<lambda>s. s\<lparr>initiatorSessionKey := Some (key message),
                                  sessionKey := Some ks, entropy := entropy s + 1\<rparr>)) (\<lambda>_.
             seq (buildPacket E (Key_message (publicKeyArray ks)) SALTYRTC_ADDR_INITIATOR True)
               (\<lambda>packet.
             seq (ws_call (WsSend packet)) (\<lambda>_.
             modify (\<lambda>s. s\<lparr>initiatorHandshakeState := Some I_key_sent\<rparr>))))) s)) s
       else if initiatorHandshakeState s = Some I_key_sent then
         (seq (assertType E message ''auth'') (\<lambda>_.
          seq (verify_cookie E (your_cookie message)) (\<lambda>_.
          seq (ws_call (WsRemoveMessageListener OnPeerHandshakeMessage)) (\<lambda>_.
          seq (ws_call (WsAddMessageListener OnMessage)) (\<lambda>_.
          seq (modify (\<lambda>s. s\<lparr>initiatorHandshakeState := Some I_auth_received\<rparr>)) (\<lambda>_.
          seq (ensure_cookies_differ E (cookie n)) (\<lambda>_.
          seq (buildPacket E (Auth_message (cookie n)) SALTYRTC_ADDR_INITIATOR True) (\<lambda>packet.
          seq (ws_call (WsSend packet)) (\<lambda>_.
          seq (modify (\<lambda>s. s\<lparr>state := State_open\<rparr>)) (\<lambda>_.
          client_call ClientOnConnected)))))))))) s
       else (Inr (), s)))))"

text \<open>
  The responder object read from the map is changed in place; here the changed record
  is put back under its key.
\<close>

definition store_responder :: "nat \<Rightarrow> Responder \<Rightarrow> unit Run" where
  "store_responder k r =
     modify (\<lambda>s. s\<lparr>responders := map_option (\<lambda>m. Map_set m k r) (responders s)\<rparr>)"

text \<open>A frame from a responder in state \<open>new\<close>: a \<open>token\<close> message under the auth token.\<close>

definition onResponderToken :: "Collaborators \<Rightarrow> bytes \<Rightarrow> Nonce \<Rightarrow> Responder \<Rightarrow> unit Run" where
  "onResponderToken E bs unsafeNonce r =
     seq (lift (Box_fromUint8Array E bs 24)) (\<lambda>box.
     seq (\<lambda>s. decrypt E (AuthToken_decrypt E (authToken s) box) s) (\<lambda>decrypted.
     seq (lift (decodeMessage E decrypted None)) (\<lambda>message.
     seq (assertType E message ''token'') (\<lambda>_.
     let r1 = r\<lparr>Responder.permanentKey := Some (key message),
                Responder.state := R_token_received\<rparr> in
     seq (store_responder (source unsafeNonce) r1) (\<lambda>_.
     seq (buildPacket E (Key_message (publicKeyArray (keyStore r1))) (Responder.id r1) True)
       (\<lambda>packet.
     ws_call (WsSend packet)))))))"

text \<open>A frame from a responder in state \<open>token-received\<close>: a \<open>key\<close> message.\<close>

definition onResponderKey :: "Collaborators \<Rightarrow> bytes \<Rightarrow> Nonce \<Rightarrow> Responder \<Rightarrow> unit Run" where
  "onResponderKey E bs unsafeNonce r =
     seq (lift (Box_fromUint8Array E bs 24)) (\<lambda>box.
     seq (\<lambda>s. decrypt E (KeyStore_decrypt E (permanentKey s) box (Responder.permanentKey r)) s)
       (\<lambda>decrypted.
     seq (lift (decodeMessage E decrypted None)) (\<lambda>message.
     seq (assertType E message ''key'') (\<lambda>_.
     let r1 = r\<lparr>Responder.sessionKey := Some (key message),
                Responder.state := R_key_received\<rparr> in
     seq (store_responder (source unsafeNonce) r1) (\<lambda>_.
     seq (ensure_cookies_differ E (cookie unsafeNonce)) (\<lambda>_.
     seq (buildPacket E (Auth_message (cookie unsafeNonce)) (Responder.id r1) True) (\<lambda>packet.
     ws_call (WsSend packet))))))))"

text \<open>
  "Drop all other responders": \<open>for (let id of this.responders.keys())\<close>, each round
  sending a \<open>drop-responder\<close> to the server and deleting the key just visited. The
  iterator is live, but a round deletes only the key it is at and adds none, so the
  keys visited are those of the map when the loop starts, in the order of the map.
\<close>

fun drop_responders :: "Collaborators \<Rightarrow> nat list \<Rightarrow> unit Run" where
  "drop_responders E [] = ok ()"
| "drop_responders E (i # ids) =
     seq (buildPacket E (DropResponder_message i) SALTYRTC_ADDR_SERVER True) (\<lambda>packet.
     seq (ws_call (WsSend packet)) (\<lambda>_.
     seq (modify (\<lambda>s. s\<lparr>responders := map_option (\<lambda>m. Map_delete m i) (responders s)\<rparr>)) (\<lambda>_.
     drop_responders E ids)))"

text \<open>A frame from a responder in state \<open>key-received\<close>: an \<open>auth\<close> message.\<close>

definition onResponderAuth :: "Collaborators \<Rightarrow> bytes \<Rightarrow> Nonce \<Rightarrow> Responder \<Rightarrow> unit Run" where
  "onResponderAuth E bs unsafeNonce r =
     seq (lift (Box_fromUint8Array E bs 24)) (\<lambda>box.
     seq (decrypt E (KeyStore_decrypt E (keyStore r) box (Responder.sessionKey r))) (\<lambda>decrypted.
     seq (lift (decodeMessage E decrypted None)) (\<lambda>message.
     seq (assertType E message ''auth'') (\<lambda>_.
     seq (verify_cookie E (your_cookie message)) (\<lambda>_.
     seq (\<lambda>s. case responders s of
                 None \<Rightarrow> (Inl (TypeError ''this.responders is null''), s)
               | Some m \<Rightarrow>
                   (Inr (), s\<lparr>responder := Map_get m (source unsafeNonce),
                              responders := Some (Map_delete m (source unsafeNonce)),
                              sessionKey := Some (keyStore r)\<rparr>)) (\<lambda>_.
     seq (\<lambda>s. case responders s of
                 None \<Rightarrow> (Inl (TypeError ''this.responders is null''), s)
               | Some m \<Rightarrow> drop_responders E (Map_keys m) s) (\<lambda>_.
     seq (ws_call (WsRemoveMessageListener OnPeerHandshakeMessage)) (\<lambda>_.
     seq (ws_call (WsAddMessageListener OnMessage)) (\<lambda>_.
     seq (modify (\<lambda>s. s\<lparr>state := State_open\<rparr>)) (\<lambda>_.
     client_call ClientOnConnected))))))))))"

text \<open>A frame from a responder (source \<open>0x02\<close> to \<open>0xff\<close>): we are the initiator.\<close>

definition onResponderMessage :: "Collaborators \<Rightarrow> bytes \<Rightarrow> Nonce \<Rightarrow> unit Run" where
  "onResponderMessage E bs unsafeNonce =
     seq (\<lambda>s. if role s \<noteq> Initiator then abort E s else (Inr (), s)) (\<lambda>_ s.
       case responders s of
         None \<Rightarrow> (Inl (TypeError ''this.responders is null''), s)
       | Some m \<Rightarrow>
           (case Map_get m (source unsafeNonce) of
              None \<Rightarrow> (Inr (), s)
            | Some r \<Rightarrow>
                if Responder.state r = R_new then onResponderToken E bs unsafeNonce r s
                else if Responder.state r = R_token_received then onResponderKey E bs unsafeNonce r s
                else if Responder.state r = R_key_received then onResponderAuth E bs unsafeNonce r s
                else (Inr (), s)))"

text \<open>The handler: \<open>buf\<close> is \<open>ev.data\<close>.\<close>

definition onPeerHandshakeMessage :: "Collaborators \<Rightarrow> bytes \<Rightarrow> unit Run" where
  "onPeerHandshakeMessage E buf s =
     (let unsafeNonce = Nonce_fromArrayBuffer E (take 24 buf)
      in seq (lift (validateNonce unsafeNonce (Some (address s)) None)) (\<lambda>_.
           if source unsafeNonce = SALTYRTC_ADDR_SERVER then onServerMessage E buf
           else if source unsafeNonce = SALTYRTC_ADDR_INITIATOR then onInitiatorMessage E buf
           else if source unsafeNonce \<ge> 0x02 \<and> source unsafeNonce \<le> 0xff
           then onResponderMessage E buf unsafeNonce
           else abort E) s)"

section \<open>Auxiliary notions for the statements\<close>

text \<open>
  Chunk \<open>i\<close> of the data \<open>data\<close> for \<open>d\<close> payload bytes a chunk, as the theorems below
  describe it, and the number of chunks, \<open>l\<close> divided by \<open>d\<close> rounded up.
\<close>

definition chunk_of :: "byte list \<Rightarrow> nat \<Rightarrow> nat \<Rightarrow> Uint8Array" where
  "chunk_of data d i =
     Uint8Array_on ((if (i + 1) * d < length data then 1 else 0) # take d (drop (i * d) data))"

definition chunk_count :: "nat \<Rightarrow> nat \<Rightarrow> nat" where
  "chunk_count l d = (l + d - 1) div d"

text \<open>A chunk that \<open>add\<close> takes as one more, and one that it takes as the last.\<close>

definition more_chunk :: "Uint8Array \<Rightarrow> bool" where
  "more_chunk a = (0 < len a \<and> buffer a \<noteq> [] \<and> buffer a ! 0 = 1)"

definition final_chunk :: "Uint8Array \<Rightarrow> bool" where
  "final_chunk a = (0 < len a \<and> buffer a \<noteq> [] \<and> buffer a ! 0 = 0)"

text \<open>
  The sequence after a \<open>next()\<close> that did not throw, for the statements about successive
  packets.
\<close>

definition advance :: "CombinedSequence \<Rightarrow> CombinedSequence" where
  "advance c =
     (if sequenceNumber c + 1 \<ge> SEQUENCE_NUMBER_MAX
      then c\<lparr>sequenceNumber := 0, overflow := overflow c + 1\<rparr>
      else c\<lparr>sequenceNumber := sequenceNumber c + 1\<rparr>)"

text \<open>
  The frame that carries \<open>drop-responder\<close> for responder \<open>i\<close> to the server under
  the sequence pair \<open>csn\<close>: encrypted with the permanent key for the server key, its
  nonce made of our cookie, our address, the server's address and the pair.
\<close>

definition drop_packet ::
  "Collaborators \<Rightarrow> Signaling \<Rightarrow> Cookie \<Rightarrow> nat \<Rightarrow> CombinedSequence \<Rightarrow> bytes" where
  "drop_packet E s c i csn =
     Box_toUint8Array E
       (KeyStore_encrypt E (permanentKey s) (msgpack_encode E (DropResponder_message i))
          (Nonce_toArrayBuffer E
             \<lparr>cookie = c, Nonce.overflow = overflow csn,
              Nonce.sequenceNumber = sequenceNumber csn,
              source = address s, destination = SALTYRTC_ADDR_SERVER\<rparr>)
          (serverKey s))"

text \<open>
  The failures of a frame of the peer handshake that the handler answers with \<open>abort\<close>,
  by kind. The nonce is the one peeked from the first 24 bytes of the frame.
\<close>

datatype Failure = Wrong_source | Decryption_failure | Type_mismatch | Cookie_mismatch

inductive failure :: "Collaborators \<Rightarrow> bytes \<Rightarrow> Signaling \<Rightarrow> Failure \<Rightarrow> bool"
  for E :: Collaborators and buf :: bytes and s :: Signaling where
  from_initiator_not_responder:
    "source (Nonce_fromArrayBuffer E (take 24 buf)) = 0x01 \<Longrightarrow> role s \<noteq> Responder \<Longrightarrow>
     failure E buf s Wrong_source"
| from_responder_not_initiator:
    "0x02 \<le> source (Nonce_fromArrayBuffer E (take 24 buf)) \<Longrightarrow>
     source (Nonce_fromArrayBuffer E (take 24 buf)) \<le> 0xff \<Longrightarrow> role s \<noteq> Initiator \<Longrightarrow>
     failure E buf s Wrong_source"
| invalid_source:
    "0xff < source (Nonce_fromArrayBuffer E (take 24 buf)) \<Longrightarrow> failure E buf s Wrong_source"
| responder_key_decryption:
    "source (Nonce_fromArrayBuffer E (take 24 buf)) = 0x01 \<Longrightarrow> role s = Responder \<Longrightarrow>
     Box_fromUint8Array E buf 24 = Inr box \<Longrightarrow>
     initiatorHandshakeState s = Some I_token_sent \<Longrightarrow>
     KeyStore_decrypt E (permanentKey s) box (initiatorPermanentKey s)
       = Inl (Thrown ''decryption-failed'') \<Longrightarrow>
     failure E buf s Decryption_failure"
| responder_session_decryption:
    "source (Nonce_fromArrayBuffer E (take 24 buf)) = 0x01 \<Longrightarrow> role s = Responder \<Longrightarrow>
     Box_fromUint8Array E buf 24 = Inr box \<Longrightarrow>
     initiatorHandshakeState s \<noteq> Some I_token_sent \<Longrightarrow> sessionKey s = Some sk \<Longrightarrow>
     KeyStore_decrypt E sk box (initiatorSessionKey s) = Inl (Thrown ''decryption-failed'') \<Longrightarrow>
     failure E buf s Decryption_failure"
| responder_key_type:
    "source (Nonce_fromArrayBuffer E (take 24 buf)) = 0x01 \<Longrightarrow> role s = Responder \<Longrightarrow>
     Box_fromUint8Array E buf 24 = Inr box \<Longrightarrow>
     initiatorHandshakeState s = Some I_token_sent \<Longrightarrow>
     KeyStore_decrypt E (permanentKey s) box (initiatorPermanentKey s) = Inr d \<Longrightarrow>
     msgpack_decode E d = Inr m \<Longrightarrow> type' m = Some t \<Longrightarrow> t \<noteq> ''key'' \<Longrightarrow>
     failure E buf s Type_mismatch"
| responder_auth_type:
    "source (Nonce_fromArrayBuffer E (take 24 buf)) = 0x01 \<Longrightarrow> role s = Responder \<Longrightarrow>
     Box_fromUint8Array E buf 24 = Inr box \<Longrightarrow>
     initiatorHandshakeState s = Some I_key_sent \<Longrightarrow> sessionKey s = Some sk \<Longrightarrow>
     KeyStore_decrypt E sk box (initiatorSessionKey s) = Inr d \<Longrightarrow>
     msgpack_decode E d = Inr m \<Longrightarrow> type' m = Some t \<Longrightarrow> t \<noteq> ''auth'' \<Longrightarrow>
     failure E buf s Type_mismatch"
| responder_auth_cookie:
    "source (Nonce_fromArrayBuffer E (take 24 buf)) = 0x01 \<Longrightarrow> role s = Responder \<Longrightarrow>
     Box_fromUint8Array E buf 24 = Inr box \<Longrightarrow>
     initiatorHandshakeState s = Some I_key_sent \<Longrightarrow> sessionKey s = Some sk \<Longrightarrow>
     KeyStore_decrypt E sk box (initiatorSessionKey s) = Inr d \<Longrightarrow>
     msgpack_decode E d = Inr m \<Longrightarrow> type' m = Some ''auth'' \<Longrightarrow>
     cookiePair s = Some cp \<Longrightarrow> your_cookie m \<noteq> ours cp \<Longrightarrow>
     failure E buf s Cookie_mismatch"
| responder_auth_same_cookie:
    "source (Nonce_fromArrayBuffer E (take 24 buf)) = 0x01 \<Longrightarrow> role s = Responder \<Longrightarrow>
     Box_fromUint8Array E buf 24 = Inr box \<Longrightarrow>
     initiatorHandshakeState s = Some I_key_sent \<Longrightarrow> sessionKey s = Some sk \<Longrightarrow>
     KeyStore_decrypt E sk box (initiatorSessionKey s) = Inr d \<Longrightarrow>
     msgpack_decode E d = Inr m \<Longrightarrow> type' m = Some ''auth'' \<Longrightarrow>
     cookiePair s = Some cp \<Longrightarrow> your_cookie m = ours cp \<Longrightarrow>
     cookie (Nonce_fromArrayBuffer E (Box.nonce box)) = ours cp \<Longrightarrow>
     failure E buf s Cookie_mismatch"
| initiator_token_decryption:
    "0x02 \<le> source (Nonce_fromArrayBuffer E (take 24 buf)) \<Longrightarrow>
     source (Nonce_fromArrayBuffer E (take 24 buf)) \<le> 0xff \<Longrightarrow> role s = Initiator \<Longrightarrow>
     responders s = Some mp \<Longrightarrow>
     Map_get mp (source (Nonce_fromArrayBuffer E (take 24 buf))) = Some r \<Longrightarrow>
     Responder.state r = R_new \<Longrightarrow> Box_fromUint8Array E buf 24 = Inr box \<Longrightarrow>
     AuthToken_decrypt E (authToken s) box = Inl (Thrown ''decryption-failed'') \<Longrightarrow>
     failure E buf s Decryption_failure"
| initiator_token_type:
    "0x02 \<le> source (Nonce_fromArrayBuffer E (take 24 buf)) \<Longrightarrow>
     source (Nonce_fromArrayBuffer E (take 24 buf)) \<le> 0xff \<Longrightarrow> role s = Initiator \<Longrightarrow>
     responders s = Some mp \<Longrightarrow>
     Map_get mp (source (Nonce_fromArrayBuffer E (take 24 buf))) = Some r \<Longrightarrow>
     Responder.state r = R_new \<Longrightarrow> Box_fromUint8Array E buf 24 = Inr box \<Longrightarrow>
     AuthToken_decrypt E (authToken s) box = Inr d \<Longrightarrow>
     msgpack_decode E d = Inr m \<Longrightarrow> type' m = Some t \<Longrightarrow> t \<noteq> ''token'' \<Longrightarrow>
     failure E buf s Type_mismatch"
| initiator_key_decryption:
    "0x02 \<le> source (Nonce_fromArrayBuffer E (take 24 buf)) \<Longrightarrow>
     source (Nonce_fromArrayBuffer E (take 24 buf)) \<le> 0xff \<Longrightarrow> role s = Initiator \<Longrightarrow>
     responders s = Some mp \<Longrightarrow>
     Map_get mp (source (Nonce_fromArrayBuffer E (take 24 buf))) = Some r \<Longrightarrow>
     Responder.state r = R_token_received \<Longrightarrow> Box_fromUint8Array E buf 24 = Inr box \<Longrightarrow>
     KeyStore_decrypt E (permanentKey s) box (Responder.permanentKey r)
       = Inl (Thrown ''decryption-failed'') \<Longrightarrow>
     failure E buf s Decryption_failure"
| initiator_key_type:
    "0x02 \<le> source (Nonce_fromArrayBuffer E (take 24 buf)) \<Longrightarrow>
     source (Nonce_fromArrayBuffer E (take 24 buf)) \<le> 0xff \<Longrightarrow> role s = Initiator \<Longrightarrow>
     responders s = Some mp \<Longrightarrow>
     Map_get mp (source (Nonce_fromArrayBuffer E (take 24 buf))) = Some r \<Longrightarrow>
     Responder.state r = R_token_received \<Longrightarrow> Box_fromUint8Array E buf 24 = Inr box \<Longrightarrow>
     KeyStore_decrypt E (permanentKey s) box (Responder.permanentKey r) = Inr d \<Longrightarrow>
     msgpack_decode E d = Inr m \<Longrightarrow> type' m = Some t \<Longrightarrow> t \<noteq> ''key'' \<Longrightarrow>
     failure E buf s Type_mismatch"
| initiator_key_same_cookie:
    "0x02 \<le> source (Nonce_fromArrayBuffer E (take 24 buf)) \<Longrightarrow>
     source (Nonce_fromArrayBuffer E (take 24 buf)) \<le> 0xff \<Longrightarrow> role s = Initiator \<Longrightarrow>
     responders s = Some mp \<Longrightarrow>
     Map_get mp (source (Nonce_fromArrayBuffer E (take 24 buf))) = Some r \<Longrightarrow>
     Responder.state r = R_token_received \<Longrightarrow> Box_fromUint8Array E buf 24 = Inr box \<Longrightarrow>
     KeyStore_decrypt E (permanentKey s) box (Responder.permanentKey r) = Inr d \<Longrightarrow>
     msgpack_decode E d = Inr m \<Longrightarrow> type' m = Some ''key'' \<Longrightarrow>
     cookiePair s = Some cp \<Longrightarrow>
     cookie (Nonce_fromArrayBuffer E (take 24 buf)) = ours cp \<Longrightarrow>
     failure E buf s Cookie_mismatch"
| initiator_auth_decryption:
    "0x02 \<le> source (Nonce_fromArrayBuffer E (take 24 buf)) \<Longrightarrow>
     source (Nonce_fromArrayBuffer E (take 24 buf)) \<le> 0xff \<Longrightarrow> role s = Initiator \<Longrightarrow>
     responders s = Some mp \<Longrightarrow>
     Map_get mp (source (Nonce_fromArrayBuffer E (take 24 buf))) = Some r \<Longrightarrow>
     Responder.state r = R_key_received \<Longrightarrow> Box_fromUint8Array E buf 24 = Inr box \<Longrightarrow>
     KeyStore_decrypt E (keyStore r) box (Responder.sessionKey r)
       = Inl (Thrown ''decryption-failed'') \<Longrightarrow>
     failure E buf s Decryption_failure"
| initiator_auth_type:
    "0x02 \<le> source (Nonce_fromArrayBuffer E (take 24 buf)) \<Longrightarrow>
     source (Nonce_fromArrayBuffer E (take 24 buf)) \<le> 0xff \<Longrightarrow> role s = Initiator \<Longrightarrow>
     responders s = Some mp \<Longrightarrow>
     Map_get mp (source (Nonce_fromArrayBuffer E (take 24 buf))) = Some r \<Longrightarrow>
     Responder.state r = R_key_received \<Longrightarrow> Box_fromUint8Array E buf 24 = Inr box \<Longrightarrow>
     KeyStore_decrypt E (keyStore r) box (Responder.sessionKey r) = Inr d \<Longrightarrow>
     msgpack_decode E d = Inr m \<Longrightarrow> type' m = Some t \<Longrightarrow> t \<noteq> ''auth'' \<Longrightarrow>
     failure E buf s Type_mismatch"
| initiator_auth_cookie:
    "0x02 \<le> source (Nonce_fromArrayBuffer E (take 24 buf)) \<Longrightarrow>
     source (Nonce_fromArrayBuffer E (take 24 buf)) \<le> 0xff \<Longrightarrow> role s = Initiator \<Longrightarrow>
     responders s = Some mp \<Longrightarrow>
     Map_get mp (source (Nonce_fromArrayBuffer E (take 24 buf))) = Some r \<Longrightarrow>
     Responder.state r = R_key_received \<Longrightarrow> Box_fromUint8Array E buf 24 = Inr box \<Longrightarrow>
     KeyStore_decrypt E (keyStore r) box (Responder.sessionKey r) = Inr d \<Longrightarrow>
     msgpack_decode E d = Inr m \<Longrightarrow> type' m = Some ''auth'' \<Longrightarrow>
     cookiePair s = Some cp \<Longrightarrow> your_cookie m \<noteq> ours cp \<Longrightarrow>
     failure E buf s Cookie_mismatch"

code_pred failure .

text \<open>
  The outcome of the abort path, seen from the state \<open>s\<close> the handler started in: the
  protocol error is thrown, the engine state is \<open>new\<close>, the socket reference is \<open>null\<close>,
  and the last two calls on the socket were the removal of the handshake handler and
  \<open>close\<close>.
\<close>

definition aborted :: "Signaling \<Rightarrow> (error + 'a) \<times> Signaling \<Rightarrow> bool" where
  "aborted s r =
     (\<exists>s' pre. r = (Inl (Error ''Aborting due to a protocol error''), s') \<and>
        state s' = State_new \<and> ws s' = None \<and>
        trace s' = trace s @ pre @ [WsRemoveMessageListener OnPeerHandshakeMessage, WsClose])"

section \<open>Stand-ins for the worked examples\<close>

text \<open>
  Modelled from the spec: a concrete set of collaborators, for evaluating the engine on
  concrete frames. The nonce has the wire layout of the spec (cookie, source,
  destination, overflow and sequence number, big-endian, 24 bytes); a box on the wire
  is its nonce followed by its ciphertext. The ciphers and the codec are toys of the
  right shape, not the real ones: a ciphertext is the plaintext behind a tag made of
  the two keys, and decryption fails when the tag is not the expected one.
\<close>

definition byte_at :: "bytes \<Rightarrow> nat \<Rightarrow> byte" where
  "byte_at bs i = (if i < length bs then bs ! i else 0)"

definition demo_Nonce_toArrayBuffer :: "Nonce \<Rightarrow> bytes" where
  "demo_Nonce_toArrayBuffer n =
     cookie n @
     [of_nat (source n), of_nat (destination n),
      of_int (Nonce.overflow n div 256), of_int (Nonce.overflow n),
      of_int (Nonce.sequenceNumber n div 16777216), of_int (Nonce.sequenceNumber n div 65536),
      of_int (Nonce.sequenceNumber n div 256), of_int (Nonce.sequenceNumber n)]"

definition demo_Nonce_fromArrayBuffer :: "bytes \<Rightarrow> Nonce" where
  "demo_Nonce_fromArrayBuffer bs =
     \<lparr>cookie = take 16 bs,
      Nonce.overflow = uint (byte_at bs 18) * 256 + uint (byte_at bs 19),
      Nonce.sequenceNumber =
        uint (byte_at bs 20) * 16777216 + uint (byte_at bs 21) * 65536 +
        uint (byte_at bs 22) * 256 + uint (byte_at bs 23),
      source = unat (byte_at bs 16), destination = unat (byte_at bs 17)\<rparr>"

definition demo_Box_fromUint8Array :: "bytes \<Rightarrow> nat \<Rightarrow> error + Box" where
  "demo_Box_fromUint8Array bs n =
     (if length bs \<le> n then Inl (Thrown ''bad-message-length'')
      else Inr \<lparr>nonce = take n bs, ciphertext = drop n bs\<rparr>)"

definition demo_Box_toUint8Array :: "Box \<Rightarrow> bytes" where
  "demo_Box_toUint8Array b = nonce b @ ciphertext b"

definition demo_tag :: "bytes \<Rightarrow> bytes option \<Rightarrow> bytes" where
  "demo_tag k other = (case other of None \<Rightarrow> k | Some k' \<Rightarrow> map2 (+) k k')"

definition demo_open :: "bytes \<Rightarrow> Box \<Rightarrow> error + bytes" where
  "demo_open tag b =
     (if take (length tag) (ciphertext b) = tag \<and> length tag \<le> length (ciphertext b)
      then Inr (drop (length tag) (ciphertext b))
      else Inl (Thrown ''decryption-failed''))"

definition demo_type_of_tag :: "byte \<Rightarrow> string option" where
  "demo_type_of_tag t =
     (if t = 0 then None
      else if t = 1 then Some ''token''
      else if t = 2 then Some ''key''
      else if t = 3 then Some ''auth''
      else if t = 4 then Some ''new-responder''
      else if t = 5 then Some ''new-initiator''
      else if t = 6 then Some ''drop-responder''
      else if t = 7 then Some ''server-hello''
      else Some ''other'')"

definition demo_tag_of_type :: "string option \<Rightarrow> byte" where
  "demo_tag_of_type t =
     (if t = None then 0
      else if t = Some ''token'' then 1
      else if t = Some ''key'' then 2
      else if t = Some ''auth'' then 3
      else if t = Some ''new-responder'' then 4
      else if t = Some ''new-initiator'' then 5
      else if t = Some ''drop-responder'' then 6
      else if t = Some ''server-hello'' then 7
      else 8)"

definition demo_msgpack_encode :: "Message \<Rightarrow> bytes" where
  "demo_msgpack_encode m =
     demo_tag_of_type (type' m) # of_nat (Message.id m) # of_nat (length (key m)) #
     key m @ your_cookie m"

definition demo_msgpack_decode :: "bytes \<Rightarrow> error + Message" where
  "demo_msgpack_decode bs =
     (case bs of
        t # i # l # rest \<Rightarrow>
          Inr \<lparr>type' = demo_type_of_tag t, key = take (unat l) rest,
               your_cookie = drop (unat l) rest, Message.id = unat i\<rparr>
      | _ \<Rightarrow> Inl (Error ''msgpack: incomplete input''))"

definition demo :: Collaborators where
  "demo =
     \<lparr>Nonce_fromArrayBuffer = demo_Nonce_fromArrayBuffer,
      Nonce_toArrayBuffer = demo_Nonce_toArrayBuffer,
      Box_fromUint8Array = demo_Box_fromUint8Array,
      Box_toUint8Array = demo_Box_toUint8Array,
      KeyStore_encrypt = (\<lambda>ks d n other.
         \<lparr>nonce = n, ciphertext = demo_tag (publicKeyArray ks) other @ d\<rparr>),
      KeyStore_decrypt = (\<lambda>ks b other. demo_open (demo_tag (publicKeyArray ks) other) b),
      AuthToken_encrypt = (\<lambda>t d n. \<lparr>nonce = n, ciphertext = keyBytes t @ d\<rparr>),
      AuthToken_decrypt = (\<lambda>t b. demo_open (keyBytes t) b),
      msgpack_encode = demo_msgpack_encode,
      msgpack_decode = demo_msgpack_decode,
      randomUint32 = (\<lambda>n. of_nat (1000 + n)),
      KeyStore_new = (\<lambda>n. \<lparr>secretKeyBytes = [of_nat n], publicKeyArray = [of_nat n]\<rparr>),
      Cookie_new = (\<lambda>n. replicate 16 (of_nat n))\<rparr>"

text \<open>
  An initiator in the peer handshake at address \<open>0x01\<close> with three responders: \<open>0x02\<close>
  has sent its token and its key, \<open>0x03\<close> and \<open>0x04\<close> are new.
\<close>

definition demo_responder :: "nat \<Rightarrow> ResponderState \<Rightarrow> Responder" where
  "demo_responder i st =
     \<lparr>Responder.id = i, permanentKey = Some [of_nat i], sessionKey = Some [of_nat (i + 100)],
      keyStore = \<lparr>secretKeyBytes = [of_nat (i + 10)], publicKeyArray = [of_nat (i + 10)]\<rparr>,
      state = st, combinedSequence = \<lparr>sequenceNumber = 5, overflow = 0\<rparr>\<rparr>"

definition demo_initiator :: Signaling where
  "demo_initiator =
     \<lparr>host = ''localhost'', port = 8765, protocol = ''wss'', ws = Some WebSocket,
      state = State_peer_handshake, serverKey = Some [50],
      permanentKey = \<lparr>secretKeyBytes = [1], publicKeyArray = [1]\<rparr>,
      sessionKey = None, authToken = \<lparr>keyBytes = [99]\<rparr>, role = Initiator,
      logTag = ''Initiator:'', address = 0x01,
      cookiePair = Some \<lparr>ours = replicate 16 1, theirs = replicate 16 0\<rparr>,
      serverCombinedSequence = \<lparr>sequenceNumber = 7, overflow = 0\<rparr>,
      responders = Some [(2, demo_responder 2 R_key_received), (3, demo_responder 3 R_new),
                         (4, demo_responder 4 R_new)],
      responder = None, initiatorPermanentKey = None, initiatorSessionKey = None,
      initiatorConnected = None, initiatorHandshakeState = None,
      initiatorCombinedSequence = \<lparr>sequenceNumber = 9, overflow = 0\<rparr>,
      trace = [], entropy = 0\<rparr>"

text \<open>
  Frames for it: the nonce (cookie of sixteen \<open>2\<close>s, the given source and destination,
  overflow 0, sequence 1) followed by a ciphertext.
\<close>

definition demo_frame :: "nat \<Rightarrow> nat \<Rightarrow> bytes \<Rightarrow> bytes" where
  "demo_frame src dst ct =
     replicate 16 2 @ [of_nat src, of_nat dst, 0, 0, 0, 0, 0, 1] @ ct"

text \<open>
  The ciphertext of an \<open>auth\<close> message with \<open>your_cookie\<close> sixteen \<open>1\<close>s under the session
  keys of responder \<open>0x02\<close> (tag \<open>12 + 102\<close>), and one with a wrong tag.
\<close>

definition demo_auth_ciphertext :: bytes where
  "demo_auth_ciphertext = [114, 3, 0, 0] @ replicate 16 1"

definition demo_bad_ciphertext :: bytes where
  "demo_bad_ciphertext = [0, 3, 0, 0] @ replicate 16 1"

section \<open>Chunkifier and Unchunkifier: theorems\<close>

lemma assign_index_at_length: "assign_index acc (int (length acc)) v = acc @ [v]"
  by (simp add: assign_index_def)

lemma lt_chunk_count: "0 < d \<Longrightarrow> i < chunk_count l d \<longleftrightarrow> i * d < l"
proof -
  assume d: "0 < d"
  have "i < chunk_count l d \<longleftrightarrow> Suc i \<le> (l + d - 1) div d"
    by (simp add: chunk_count_def Suc_le_eq)
  also have "\<dots> \<longleftrightarrow> Suc i * d \<le> l + d - 1"
    using d by (simp add: less_eq_div_iff_mult_less_eq)
  also have "\<dots> \<longleftrightarrow> i * d < l"
    using d by auto
  finally show ?thesis .
qed

lemma elems_length: "wf_array a \<Longrightarrow> length (elems a) = len a"
  by (simp add: elems_def wf_array_def)

lemma hasNext_nat:
  "2 \<le> chunkSize c \<Longrightarrow> hasNext c (int i) \<longleftrightarrow> i * nat (chunkSize c - 1) < len (array c)"
proof -
  assume "2 \<le> chunkSize c"
  then have "int i * (chunkSize c - 1) = int (i * nat (chunkSize c - 1))" by simp
  then show ?thesis unfolding hasNext_def offset_def by (metis of_nat_less_iff)
qed

lemma relative_index_nat: "relative_index (int k) n = min k n"
  by (simp add: relative_index_def)

lemma slice_nat:
  "slice a (int k) (min (int e) (int (len a))) =
     Uint8Array_on (take (min e (len a) - min k (len a)) (drop (min k (len a)) (elems a)))"
proof -
  have "min (int e) (int (len a)) = int (min e (len a))" by (simp only: of_nat_min)
  then show ?thesis by (simp only: slice_def Let_def relative_index_nat min.assoc min.idem)
qed

lemma make_chunk_ok:
  assumes C: "2 \<le> chunkSize c" and wf: "wf_array (array c)"
    and i: "i * nat (chunkSize c - 1) < len (array c)"
  shows "make_chunk c (int i) = Inr (chunk_of (elems (array c)) (nat (chunkSize c - 1)) i)"
proof -
  define d where "d = nat (chunkSize c - 1)"
  define L where "L = len (array c)"
  define data where "data = elems (array c)"
  define k where "k = i * d"
  have dpos: "0 < d" and Cd: "chunkSize c = int d + 1" using C by (simp_all add: d_def)
  have ldata: "length data = L" using wf by (simp add: data_def L_def elems_length)
  have off: "offset c (int i) = int k" and off1: "offset c (int i + 1) = int (k + d)"
    by (simp_all add: offset_def Cd k_def algebra_simps)
  have hn: "hasNext c (int i + 1) \<longleftrightarrow> k + d < L"
    using hasNext_nat [OF C, of "i + 1"] by (simp add: d_def L_def k_def add.commute)
  have kL: "k < L" using i by (simp add: d_def L_def k_def)
  define m where "m = min d (L - k)"
  have mpos: "0 < m" using dpos kL by (simp add: m_def)
  have len_eq: "min (chunkSize c) (int L + 1 - int k) = int (Suc m)"
    using kL unfolding Cd m_def by (simp add: min_def) linarith
  have sl: "slice (array c) (int k) (min (int (k + d)) (int L))
            = Uint8Array_on (take d (drop k data))"
  proof -
    have a: "min k L = k" using kL by simp
    have "min (k + d) L - k = m" using kL unfolding m_def by (simp add: min_def) linarith
    moreover have "take m (drop k data) = take d (drop k data)"
      by (simp add: m_def ldata min_def)
    ultimately show ?thesis
      unfolding L_def data_def slice_nat using a by (simp only: L_def)
  qed
  have lt: "length (take d (drop k data)) = m" by (simp add: m_def ldata min.commute)
  have flag: "(if (i + 1) * d < L then 1 else 0) = (if k + d < L then 1 else (0::byte))"
    by (simp add: k_def add.commute)
  have tk: "take m (drop k data) = take d (drop k data)"
    by (simp add: m_def ldata min_def)
  have nm: "nat (1 + int m) = Suc m" by simp
  show ?thesis
    unfolding make_chunk_def Let_def off off1 hn L_def [symmetric] len_eq sl
      chunk_of_def d_def [symmetric] data_def [symmetric] ldata flag k_def [symmetric]
    using lt
    by (simp add: new_ArrayBuffer_def setUint8_def set_at_def Uint8Array_on_def elems_def
        tk nm del: of_nat_Suc of_nat_add)
qed

lemma getChunks_loop_run:
  assumes C: "2 \<le> chunkSize c" and wf: "wf_array (array c)"
  shows "length acc = i \<Longrightarrow>
         getChunks_loop c (int i) acc =
           Some (None, acc @ map (chunk_of (elems (array c)) (nat (chunkSize c - 1)))
                              [i ..< chunk_count (len (array c)) (nat (chunkSize c - 1))])"
proof (induction "chunk_count (len (array c)) (nat (chunkSize c - 1)) - i" arbitrary: i acc)
  case 0
  have dpos: "0 < nat (chunkSize c - 1)" using C by simp
  from 0 have "\<not> i < chunk_count (len (array c)) (nat (chunkSize c - 1))" by simp
  then have "\<not> hasNext c (int i)"
    using lt_chunk_count [OF dpos] hasNext_nat [OF C] by simp
  then show ?case using 0 by (subst getChunks_loop.simps) simp
next
  case (Suc n)
  have dpos: "0 < nat (chunkSize c - 1)" using C by simp
  from Suc have lt: "i < chunk_count (len (array c)) (nat (chunkSize c - 1))" by simp
  then have i: "i * nat (chunkSize c - 1) < len (array c)"
    using lt_chunk_count [OF dpos] by simp
  then have hn: "hasNext c (int i)" using hasNext_nat [OF C] by simp
  have asg: "assign_index acc (int i) x = acc @ [x]" for x
    using Suc.prems by (simp add: assign_index_def)
  have "n = chunk_count (len (array c)) (nat (chunkSize c - 1)) - Suc i" using Suc by simp
  moreover have "length (acc @ [x]) = Suc i" for x using Suc.prems by simp
  ultimately have IH: "getChunks_loop c (int (Suc i)) (acc @ [x]) =
      Some (None, (acc @ [x]) @ map (chunk_of (elems (array c)) (nat (chunkSize c - 1)))
                              [Suc i ..< chunk_count (len (array c)) (nat (chunkSize c - 1))])" for x
    using Suc.hyps(1) by blast
  have step: "int i + 1 = int (Suc i)" by simp
  show ?case
    by (subst getChunks_loop.simps)
       (simp only: hn if_True make_chunk_ok [OF C wf i] sum.case asg step IH
          upt_conv_Cons [OF lt] list.map append_assoc append_Cons append_Nil)
qed

lemma getChunks_fresh:
  assumes C: "2 \<le> chunkSize c" and wf: "wf_array (array c)" and fresh: "Chunkifier.chunks c = None"
  shows "getChunks c =
           Some (Inr (map (chunk_of (elems (array c)) (nat (chunkSize c - 1)))
                       [0 ..< chunk_count (len (array c)) (nat (chunkSize c - 1))]),
                 c\<lparr>Chunkifier.chunks :=
                     Some (map (chunk_of (elems (array c)) (nat (chunkSize c - 1)))
                       [0 ..< chunk_count (len (array c)) (nat (chunkSize c - 1))])\<rparr>)"
  using getChunks_loop_run [OF C wf, of "[]" 0] fresh by (simp add: getChunks_def)

lemma add_more:
  "\<not> done' u \<Longrightarrow> more_chunk a \<Longrightarrow>
   add u a = (Inr (Boolean False),
              u\<lparr>Unchunkifier.chunks := Unchunkifier.chunks u @ [a],
                length' := length' u + (int (len a) - 1)\<rparr>)"
  by (simp add: add_def more_chunk_def getUint8_def)

lemma add_final:
  "\<not> done' u \<Longrightarrow> final_chunk a \<Longrightarrow>
   add u a = (Inr (Boolean True),
              u\<lparr>Unchunkifier.chunks := Unchunkifier.chunks u @ [a],
                length' := length' u + (int (len a) - 1), done' := True\<rparr>)"
  by (simp add: add_def final_chunk_def getUint8_def)

lemma add_all_more:
  "\<not> done' u \<Longrightarrow> \<forall>a \<in> set xs. more_chunk a \<Longrightarrow> final_chunk l \<Longrightarrow>
   add_all u (xs @ [l]) =
     Inr (u\<lparr>Unchunkifier.chunks := Unchunkifier.chunks u @ xs @ [l],
           length' := length' u + (\<Sum>a\<leftarrow>xs @ [l]. int (len a) - 1), done' := True\<rparr>)"
proof (induction xs arbitrary: u)
  case Nil
  then show ?case by (simp add: add_final)
next
  case (Cons x xs)
  then show ?case by (simp add: add_more algebra_simps)
qed

lemma elems_on [simp]: "elems (Uint8Array_on b) = b"
  by (simp add: elems_def Uint8Array_on_def)

lemma len_on [simp]: "len (Uint8Array_on b) = length b"
  by (simp add: Uint8Array_on_def)

lemma slice_from_1: "wf_array a \<Longrightarrow> 0 < len a \<Longrightarrow> slice_from a 1 = Uint8Array_on (tl (elems a))"
proof -
  assume w: "wf_array a" and p: "0 < len a"
  have "relative_index 1 (len a) = 1" using p by (simp add: relative_index_def)
  moreover have "relative_index (int (len a)) (len a) = len a" by (simp add: relative_index_nat)
  moreover have "take (len a - 1) (drop 1 (elems a)) = tl (elems a)"
    using elems_length [OF w] by (simp add: drop_Suc)
  ultimately show ?thesis by (simp add: slice_from_def slice_def)
qed

lemma set_at_on:
  "off + length src \<le> length buf \<Longrightarrow>
   set_at (Uint8Array_on buf) (Uint8Array_on src) (int off) =
     Inr (Uint8Array_on (take off buf @ src @ drop (off + length src) buf))"
  by (simp add: set_at_def Uint8Array_on_def elems_def)

lemma merge_loop_ok:
  "\<forall>a \<in> set cs. wf_array a \<and> 0 < len a \<Longrightarrow>
   off + length (concat (map (\<lambda>a. tl (elems a)) cs)) \<le> length buf \<Longrightarrow>
   merge_loop (Uint8Array_on buf) (int off) cs =
     Inr (Uint8Array_on (take off buf @ concat (map (\<lambda>a. tl (elems a)) cs) @
            drop (off + length (concat (map (\<lambda>a. tl (elems a)) cs))) buf))"
proof (induction cs arbitrary: off buf)
  case Nil
  then show ?case by simp
next
  case (Cons a cs)
  define p where "p = tl (elems a)"
  define rest where "rest = concat (map (\<lambda>a. tl (elems a)) cs)"
  have wa: "wf_array a" and la: "0 < len a" using Cons.prems(1) by simp_all
  have lp: "length p = len a - 1" by (simp add: p_def elems_length [OF wa])
  have fit: "off + length p + length rest \<le> length buf"
    using Cons.prems(2) by (simp add: p_def rest_def)
  have st: "set_at (Uint8Array_on buf) (slice_from a 1) (int off) =
            Inr (Uint8Array_on (take off buf @ p @ drop (off + length p) buf))"
    unfolding slice_from_1 [OF wa la] p_def [symmetric] using fit by (intro set_at_on) simp
  define buf' where "buf' = take off buf @ p @ drop (off + length p) buf"
  have lb: "length buf' = length buf" using fit by (simp add: buf'_def)
  have nxt: "int off + (int (len a) - 1) = int (off + length p)" using la lp by simp
  have IH: "merge_loop (Uint8Array_on buf') (int (off + length p)) cs =
     Inr (Uint8Array_on (take (off + length p) buf' @ rest @
            drop (off + length p + length rest) buf'))"
    unfolding rest_def using Cons.prems(1) fit lb
    by (intro Cons.IH) (simp_all add: rest_def)
  have t: "take (off + length p) buf' = take off buf @ p"
    using fit by (simp add: buf'_def)
  have d: "drop (off + length p + length rest) buf' = drop (off + length p + length rest) buf"
    using fit by (simp add: buf'_def add.commute add.left_commute)
  show ?case
    by (simp only: merge_loop.simps st sum.case buf'_def [symmetric] nxt IH t d)
       (simp add: p_def rest_def add.assoc)
qed

lemma concat_takes:
  "concat (map (\<lambda>i. take d (drop (i * d) xs)) [0 ..< n]) = take (n * d) xs"
proof (induction n)
  case 0
  then show ?case by simp
next
  case (Suc n)
  have "take (n * d + d) xs = take (n * d) xs @ take d (drop (n * d) xs)"
    by (simp add: take_add)
  then show ?case using Suc by (simp add: add.commute)
qed

lemma chunk_of_more:
  "(i + 1) * d < length data \<Longrightarrow> more_chunk (chunk_of data d i)"
  by (simp add: more_chunk_def chunk_of_def Uint8Array_on_def)

lemma chunk_of_final:
  "\<not> (i + 1) * d < length data \<Longrightarrow> final_chunk (chunk_of data d i)"
  by (simp add: final_chunk_def chunk_of_def Uint8Array_on_def)

lemma chunk_of_wf: "wf_array (chunk_of data d i) \<and> 0 < len (chunk_of data d i)"
  by (simp add: chunk_of_def Uint8Array_on_def wf_array_def)

lemma chunk_of_payload: "tl (elems (chunk_of data d i)) = take d (drop (i * d) data)"
  by (simp add: chunk_of_def)

lemma chunk_count_pos: "0 < d \<Longrightarrow> 0 < l \<Longrightarrow> 0 < chunk_count l d"
  using lt_chunk_count [of d 0 l] by simp

lemma chunk_count_covers: "0 < d \<Longrightarrow> l \<le> chunk_count l d * d"
  using lt_chunk_count [of d "chunk_count l d" l] by simp


lemma chunks_split:
  assumes d: "0 < d" and l: "0 < length data"
  shows "map (chunk_of data d) [0 ..< chunk_count (length data) d] =
           map (chunk_of data d) [0 ..< chunk_count (length data) d - 1] @
           [chunk_of data d (chunk_count (length data) d - 1)]"
proof -
  have "[0 ..< chunk_count (length data) d] =
        [0 ..< chunk_count (length data) d - 1] @ [chunk_count (length data) d - 1]"
    using chunk_count_pos [OF d l] by (metis Suc_diff_1 upt_Suc_append zero_le)
  then show ?thesis by (metis list.simps(8,9) map_append)
qed

lemma chunks_flags:
  assumes d: "0 < d" and l: "0 < length data"
  shows "(\<forall>a \<in> set (map (chunk_of data d) [0 ..< chunk_count (length data) d - 1]). more_chunk a)
         \<and> final_chunk (chunk_of data d (chunk_count (length data) d - 1))"
proof -
  define n where "n = chunk_count (length data) d"
  have npos: "0 < n" unfolding n_def by (rule chunk_count_pos [OF d l])
  have "more_chunk (chunk_of data d i)" if "i < n - 1" for i
  proof -
    from that have "i + 1 < n" by simp
    then have "(i + 1) * d < length data" using lt_chunk_count [OF d] n_def by blast
    then show ?thesis by (rule chunk_of_more)
  qed
  moreover have "final_chunk (chunk_of data d (n - 1))"
  proof -
    have "\<not> (n - 1 + 1) < n" by simp
    then have "\<not> (n - 1 + 1) * d < length data" using lt_chunk_count [OF d] n_def by blast
    then show ?thesis by (rule chunk_of_final)
  qed
  ultimately show ?thesis unfolding n_def by auto
qed

lemma payload_total:
  assumes d: "0 < d"
  shows "concat (map (\<lambda>a. tl (elems a)) (map (chunk_of data d) [0 ..< chunk_count (length data) d]))
         = data"
proof -
  have "concat (map (\<lambda>a. tl (elems a)) (map (chunk_of data d) [0 ..< chunk_count (length data) d]))
        = concat (map (\<lambda>i. take d (drop (i * d) data)) [0 ..< chunk_count (length data) d])"
    by (simp add: comp_def chunk_of_payload)
  also have "\<dots> = take (chunk_count (length data) d * d) data" by (rule concat_takes)
  also have "\<dots> = data" using chunk_count_covers [OF d, of "length data"] by simp
  finally show ?thesis .
qed

lemma payload_sum:
  "(\<Sum>a\<leftarrow>cs. int (len a) - 1) = int (length (concat (map (\<lambda>a. tl (elems a)) cs)))"
  if "\<forall>a \<in> set cs. wf_array a \<and> 0 < len a"
  using that
proof (induction cs)
  case Nil
  then show ?case by simp
next
  case (Cons a cs)
  then have "length (tl (elems a)) = len a - 1" "0 < len a"
    by (simp_all add: elems_length)
  then show ?case using Cons by (simp add: of_nat_diff)
qed

text \<open>
  Claim C1. For every non-empty buffer \<open>buf\<close> and every chunk size \<open>C \<ge> 2\<close>: the
  constructor accepts them, \<open>getChunks\<close> returns a list of chunks, feeding these in order
  into a fresh unchunkifier with \<open>add\<close> throws nothing, and \<open>merge\<close> then returns an array
  with the elements of \<open>buf\<close>.
\<close>

theorem chunk_unchunk_roundtrip:
  assumes wf: "wf_array buf" and ne: "1 \<le> len buf" and C: "2 \<le> C"
  shows "\<exists>c cs c' u m u'.
           Chunkifier_new buf C = Inr c \<and> getChunks c = Some (Inr cs, c') \<and>
           add_all Unchunkifier_new cs = Inr u \<and> merge u = (Inr m, u') \<and>
           elems m = elems buf"
proof -
  define c where "c = \<lparr>array = buf, chunkSize = C, Chunkifier.chunks = None\<rparr>"
  define d where "d = nat (C - 1)"
  define data where "data = elems buf"
  define cs where "cs = map (chunk_of data d) [0 ..< chunk_count (length data) d]"
  have dpos: "0 < d" using C by (simp add: d_def)
  have ld: "length data = len buf" by (simp add: data_def elems_length [OF wf])
  have lpos: "0 < length data" using ne ld by simp
  have new: "Chunkifier_new buf C = Inr c"
    using ne C by (simp add: Chunkifier_new_def c_def)
  have sel: "array c = buf" "chunkSize c = C" "Chunkifier.chunks c = None"
    by (simp_all add: c_def)
  have gc: "getChunks c = Some (Inr cs, c\<lparr>Chunkifier.chunks := Some cs\<rparr>)"
    using getChunks_fresh [of c] C wf
    unfolding sel cs_def data_def [symmetric] d_def [symmetric] ld [symmetric] by simp
  have wfs: "\<forall>a \<in> set cs. wf_array a \<and> 0 < len a"
    by (auto simp: cs_def chunk_of_wf)
  have total: "concat (map (\<lambda>a. tl (elems a)) cs) = data"
    unfolding cs_def by (rule payload_total [OF dpos])
  define u where "u = \<lparr>Unchunkifier.chunks = cs, length' = int (length data), done' = True, merged = None\<rparr>"
  have "add_all Unchunkifier_new (map (chunk_of data d) [0 ..< chunk_count (length data) d - 1] @
           [chunk_of data d (chunk_count (length data) d - 1)]) =
        Inr (Unchunkifier_new\<lparr>Unchunkifier.chunks := Unchunkifier.chunks Unchunkifier_new @
               map (chunk_of data d) [0 ..< chunk_count (length data) d - 1] @
               [chunk_of data d (chunk_count (length data) d - 1)],
             length' := length' Unchunkifier_new +
               (\<Sum>a\<leftarrow>map (chunk_of data d) [0 ..< chunk_count (length data) d - 1] @
                    [chunk_of data d (chunk_count (length data) d - 1)]. int (len a) - 1),
             done' := True\<rparr>)"
    using chunks_flags [OF dpos lpos] by (intro add_all_more) (simp_all add: Unchunkifier_new_def)
  then have fed: "add_all Unchunkifier_new cs = Inr u"
    unfolding chunks_split [OF dpos lpos, symmetric] cs_def [symmetric]
    using payload_sum [OF wfs] total by (simp add: Unchunkifier_new_def u_def)
  have ml: "merge_loop (Uint8Array_on (replicate (length data) 0)) (int 0) cs =
            Inr (Uint8Array_on (take 0 (replicate (length data) 0) @ concat (map (\<lambda>a. tl (elems a)) cs) @
               drop (0 + length (concat (map (\<lambda>a. tl (elems a)) cs))) (replicate (length data) 0)))"
    using wfs total by (intro merge_loop_ok) simp_all
  have mg: "merge u = (Inr (Uint8Array_on data), u\<lparr>merged := Some (Uint8Array_on data)\<rparr>)"
    using ml total by (simp add: merge_def u_def new_Uint8Array_def new_ArrayBuffer_def)
  show ?thesis using new gc fed mg by (auto simp: data_def)
qed




theorem chunk_unchunk_roundtrip_witness:
  "wf_array (Uint8Array_of [1, 2, 3, 4, 5, 6]) \<and> 1 \<le> len (Uint8Array_of [1, 2, 3, 4, 5, 6]) \<and>
   (2::int) \<le> 3 \<and>
   (\<exists>c cs c' u m u'.
      Chunkifier_new (Uint8Array_of [1, 2, 3, 4, 5, 6]) 3 = Inr c \<and>
      getChunks c = Some (Inr cs, c') \<and> add_all Unchunkifier_new cs = Inr u \<and>
      merge u = (Inr m, u') \<and> elems m = [1, 2, 3, 4, 5, 6])"
proof -
  have h: "wf_array (Uint8Array_of [1, 2, 3, 4, 5, 6])" "1 \<le> len (Uint8Array_of [1, 2, 3, 4, 5, 6])"
    "(2::int) \<le> 3"
    by (simp_all add: wf_array_def Uint8Array_of_def Uint8Array_on_def)
  have e: "elems (Uint8Array_of [1, 2, 3, 4, 5, 6]) = [1, 2, 3, 4, 5, 6]"
    by (simp add: Uint8Array_of_def)
  show ?thesis using h chunk_unchunk_roundtrip [OF h] unfolding e by blast
qed

lemma chunk_scenario_1: "getChunks \<lparr>array = Uint8Array_of [1, 2, 3, 4, 5, 6], chunkSize = 3, Chunkifier.chunks = None\<rparr>
  = Some (Inr [Uint8Array_of [1,1,2], Uint8Array_of [1,3,4], Uint8Array_of [0,5,6]], 
     \<lparr>array = Uint8Array_of [1, 2, 3, 4, 5, 6], chunkSize = 3, Chunkifier.chunks = Some [Uint8Array_of [1,1,2], Uint8Array_of [1,3,4], Uint8Array_of [0,5,6]]\<rparr>)"
  by code_simp

subsection \<open>add on an empty and on an invalid chunk\<close>

lemma add_empty:
  "\<not> done' u \<Longrightarrow> len a = 0 \<Longrightarrow> add u a = (Inr Undefined, u)"
  by (simp add: add_def)

text \<open>
  Claim C8. \<open>add\<close> with an empty chunk on an unchunkifier that is not complete leaves
  the chunk list, the length and the completion flag as they are, but what it returns
  is \<open>undefined\<close> (the bare \<open>return\<close>), not the boolean \<open>false\<close>.
\<close>

theorem add_empty_returns_undefined:
  "add Unchunkifier_new (Uint8Array_of []) = (Inr Undefined, Unchunkifier_new)
   \<and> Undefined \<noteq> Boolean False"
  by (simp add: add_def Unchunkifier_new_def Uint8Array_of_def Uint8Array_on_def)





section \<open>CombinedSequence: theorems\<close>

lemma CombinedSequence_next_fails_iff:
  "(\<exists>e c'. CombinedSequence_next c = (Inl e, c')) \<longleftrightarrow>
     sequenceNumber c + 1 \<ge> 2 ^ 32 \<and> overflow c + 1 \<ge> 2 ^ 20"
  by (simp add: CombinedSequence_next_def SEQUENCE_NUMBER_MAX_def OVERFLOW_MAX_def Let_def)

text \<open>
  Claim C3. \<open>next()\<close> is claimed to fail exactly when a wrap takes the overflow counter
  to \<open>2\<^sup>1\<^sup>6\<close> or more. The code compares with \<open>OVERFLOW_MAX = 0x100000\<close>, which is
  \<open>2\<^sup>2\<^sup>0\<close>: on the wrap that takes the overflow counter from \<open>0xFFFF\<close> to \<open>2\<^sup>1\<^sup>6\<close> it
  throws nothing and returns the pair \<open>(0, 65536)\<close>.
\<close>

theorem next_passes_overflow_65536:
  "CombinedSequence_next \<lparr>sequenceNumber = 0xFFFFFFFF, overflow = 0xFFFF\<rparr> =
     (Inr \<lparr>sequenceNumber = 0, overflow = 0x10000\<rparr>,
      \<lparr>sequenceNumber = 0, overflow = 0x10000\<rparr>)
   \<and> (0x10000 :: int) = 2 ^ 16"
  by (simp add: CombinedSequence_next_def SEQUENCE_NUMBER_MAX_def OVERFLOW_MAX_def Let_def)

subsection \<open>resetConnection\<close>

text \<open>
  Claim C10. \<open>resetConnection\<close> sets the state to \<open>new\<close>, replaces the server sequence
  by a fresh one (a random sequence number, overflow 0), closes the socket when there
  is one and sets the reference to \<open>null\<close>; every other field of the engine is as it
  was. (Of the two fields of the model, the trace gains the \<open>close\<close> call and the
  random tape is one draw further.)
\<close>

theorem resetConnection_frame:
  "state (resetConnection E s) = State_new \<and>
   serverCombinedSequence (resetConnection E s) = CombinedSequence_new (randomUint32 E (entropy s)) \<and>
   ws (resetConnection E s) = None \<and>
   trace (resetConnection E s) = trace s @ (if ws s = None then [] else [WsClose]) \<and>
   responders (resetConnection E s) = responders s \<and>
   responder (resetConnection E s) = responder s \<and>
   sessionKey (resetConnection E s) = sessionKey s \<and>
   permanentKey (resetConnection E s) = permanentKey s \<and>
   authToken (resetConnection E s) = authToken s \<and>
   cookiePair (resetConnection E s) = cookiePair s \<and>
   serverKey (resetConnection E s) = serverKey s \<and>
   initiatorCombinedSequence (resetConnection E s) = initiatorCombinedSequence s \<and>
   initiatorPermanentKey (resetConnection E s) = initiatorPermanentKey s \<and>
   initiatorSessionKey (resetConnection E s) = initiatorSessionKey s \<and>
   initiatorConnected (resetConnection E s) = initiatorConnected s \<and>
   initiatorHandshakeState (resetConnection E s) = initiatorHandshakeState s \<and>
   role (resetConnection E s) = role s \<and>
   address (resetConnection E s) = address s \<and>
   host (resetConnection E s) = host s \<and>
   port (resetConnection E s) = port s \<and>
   protocol (resetConnection E s) = protocol s \<and>
   logTag (resetConnection E s) = logTag s"
  by (simp add: resetConnection_def Let_def)

subsection \<open>The cookie pair after server-hello\<close>

lemma generate_cookie_first:
  "\<forall>i < j. Cookie_new E (n + i) = their \<Longrightarrow> Cookie_new E (n + j) \<noteq> their \<Longrightarrow>
   generate_cookie E their n = Some (Cookie_new E (n + j), n + j + 1)"
proof (induction j arbitrary: n)
  case 0
  then show ?case by (subst generate_cookie.simps) (simp add: Let_def)
next
  case (Suc j)
  have first: "Cookie_new E n = their" using Suc.prems(1) by force
  have "\<forall>i < j. Cookie_new E (Suc n + i) = their"
  proof (intro allI impI)
    fix i assume "i < j"
    then have "Cookie_new E (n + Suc i) = their" using Suc.prems(1) by blast
    then show "Cookie_new E (Suc n + i) = their" by simp
  qed
  moreover have "Cookie_new E (Suc n + j) \<noteq> their" using Suc.prems(2) by simp
  ultimately have "generate_cookie E their (Suc n) = Some (Cookie_new E (Suc n + j), Suc n + j + 1)"
    by (rule Suc.IH)
  then show ?case using first by (subst generate_cookie.simps) (simp add: Let_def)
qed

lemma first_other_draw:
  assumes "Cookie_new E (n + j) \<noteq> their"
  shows "\<exists>k \<le> j. (\<forall>i < k. Cookie_new E (n + i) = their) \<and> Cookie_new E (n + k) \<noteq> their"
proof -
  define k where "k = (LEAST k. Cookie_new E (n + k) \<noteq> their)"
  have "Cookie_new E (n + k) \<noteq> their" unfolding k_def using assms by (rule LeastI)
  moreover have "k \<le> j" unfolding k_def using assms by (rule Least_le)
  moreover have "Cookie_new E (n + i) = their" if "i < k" for i
    using that not_less_Least unfolding k_def by blast
  ultimately show ?thesis by blast
qed

lemma generate_cookie_differs:
  assumes "generate_cookie E their n = Some y"
  shows "fst y \<noteq> their"
proof (rule generate_cookie.raw_induct [where P = "\<lambda>E their n y. fst y \<noteq> their", OF _ assms])
  fix f E their n y
  assume IH: "\<And>E their n y. f E their n = Some y \<Longrightarrow> fst y \<noteq> their"
    and step: "(let c = Cookie_new E n
                in if c = their then f E their (n + 1) else Some (c, n + 1)) = Some y"
  show "fst y \<noteq> their"
  proof (cases "Cookie_new E n = their")
    case True
    with step have "f E their (n + 1) = Some y" by (simp add: Let_def)
    then show ?thesis by (rule IH)
  next
    case False
    with step show ?thesis by (auto simp: Let_def)
  qed
qed

lemma server_hello_cookies_differ:
  assumes "serverHandshake_hello E buf s = Some (Inr (), s')"
  shows "\<exists>c. cookiePair s' = Some \<lparr>ours = c, theirs = cookie (Nonce_fromArrayBuffer E (take 24 buf))\<rparr>
             \<and> c \<noteq> cookie (Nonce_fromArrayBuffer E (take 24 buf))"
  using assms generate_cookie_differs [of E "cookie (Nonce_fromArrayBuffer E (take 24 buf))" "entropy s"]
  by (auto simp: serverHandshake_hello_def Let_def split: sum.splits if_splits option.splits)

text \<open>
  Claim C7. On a \<open>server-hello\<close> frame that passes the checks, with a random source
  that at some draw \<open>j\<close> yields a cookie other than the one of the frame's nonce, the
  block returns. There is a first such draw \<open>k\<close>: every cookie drawn before it was equal
  to the nonce's cookie and was thrown away, the cookie of draw \<open>k\<close> is the one kept, and
  \<open>k + 1\<close> cookies have been drawn. The engine afterwards is the engine before with the
  server key stored and the cookie pair \<open>(ours, theirs)\<close> set to that cookie and the
  cookie of the nonce, so \<open>ours \<noteq> theirs\<close>.
\<close>

theorem server_hello_cookie_pair:
  assumes "msgpack_decode E (drop 24 buf) = Inr hello"
    and "type' hello = Some ''server-hello''"
    and "destination (Nonce_fromArrayBuffer E (take 24 buf)) = address s"
    and "source (Nonce_fromArrayBuffer E (take 24 buf)) = 0"
    and "Cookie_new E (entropy s + j) \<noteq> cookie (Nonce_fromArrayBuffer E (take 24 buf))"
  shows "\<exists>k \<le> j.
           (\<forall>i < k. Cookie_new E (entropy s + i) = cookie (Nonce_fromArrayBuffer E (take 24 buf))) \<and>
           Cookie_new E (entropy s + k) \<noteq> cookie (Nonce_fromArrayBuffer E (take 24 buf)) \<and>
           serverHandshake_hello E buf s =
             Some (Inr (),
                   s\<lparr>serverKey := Some (key hello),
                     cookiePair :=
                       Some \<lparr>ours = Cookie_new E (entropy s + k),
                             theirs = cookie (Nonce_fromArrayBuffer E (take 24 buf))\<rparr>,
                     entropy := entropy s + k + 1\<rparr>)"
proof -
  define n where "n = Nonce_fromArrayBuffer E (take 24 buf)"
  from first_other_draw [OF assms(5)] obtain k where
    k: "k \<le> j" and before: "\<forall>i < k. Cookie_new E (entropy s + i) = cookie n"
    and at: "Cookie_new E (entropy s + k) \<noteq> cookie n"
    unfolding n_def by blast
  have g: "generate_cookie E (cookie n) (entropy s) =
             Some (Cookie_new E (entropy s + k), entropy s + k + 1)"
    using before at by (rule generate_cookie_first)
  have v: "validateNonce n (Some (address s)) (Some 0) = Inr ()"
    using assms(3,4) by (simp add: validateNonce_def n_def)
  have "serverHandshake_hello E buf s =
          Some (Inr (),
                s\<lparr>serverKey := Some (key hello),
                  cookiePair := Some \<lparr>ours = Cookie_new E (entropy s + k), theirs = cookie n\<rparr>,
                  entropy := entropy s + k + 1\<rparr>)"
    unfolding serverHandshake_hello_def n_def [symmetric] Let_def
    using assms(1,2) v g by simp
  then show ?thesis using k before at unfolding n_def by blast
qed

section \<open>The peer handshake: theorems\<close>

subsection \<open>The abort path\<close>

lemma abort_run:
  "ws s \<noteq> None \<Longrightarrow>
   abort E s = (Inl (Error ''Aborting due to a protocol error''),
                resetConnection E (s\<lparr>trace := trace s @ [WsRemoveMessageListener OnPeerHandshakeMessage]\<rparr>))"
  by (auto simp: abort_def seq_def ws_call_def)

lemma aborted_abort: "ws s \<noteq> None \<Longrightarrow> aborted s (abort E s)"
  unfolding aborted_def
  by (rule exI [of _ "resetConnection E (s\<lparr>trace := trace s @ [WsRemoveMessageListener OnPeerHandshakeMessage]\<rparr>)"],
      rule exI [of _ "[]"])
     (auto simp: abort_run resetConnection_def Let_def)

lemma aborted_seq: "aborted s (m s) \<Longrightarrow> aborted s (seq m f s)"
  by (auto simp: aborted_def seq_def)

lemma validate_dest:
  "destination n = a \<Longrightarrow> validateNonce n (Some a) None = Inr ()"
  by (simp add: validateNonce_def)

lemma decode_typed:
  "msgpack_decode E d = Inr m \<Longrightarrow> type' m = Some t \<Longrightarrow> decodeMessage E d None = Inr m"
  by (simp add: decodeMessage_def)

text \<open>
  Claim C4, as amended. During the peer handshake, on a frame addressed to the engine,
  each of these failures runs the abort path: a frame whose source does not fit the
  role (or is no valid address); a frame from the initiator or from a known responder
  that fails to decrypt under the key expected in the current handshake state; a
  decoded message of another type than the one expected; a \<open>your_cookie\<close> other than our
  cookie; a peer cookie equal to ours. The handshake handler is removed from the
  socket, the socket is closed and dropped, the engine state is \<open>new\<close>, and the error
  \<open>Aborting due to a protocol error\<close> is thrown.
\<close>

theorem peer_handshake_failure_aborts:
  assumes f: "failure E buf s f"
    and w: "ws s \<noteq> None"
    and d: "destination (Nonce_fromArrayBuffer E (take 24 buf)) = address s"
  shows "\<exists>s' pre.
           onPeerHandshakeMessage E buf s = (Inl (Error ''Aborting due to a protocol error''), s') \<and>
           state s' = State_new \<and> ws s' = None \<and>
           trace s' = trace s @ pre @ [WsRemoveMessageListener OnPeerHandshakeMessage, WsClose]"
proof -
  define n where "n = Nonce_fromArrayBuffer E (take 24 buf)"
  have v: "validateNonce n (Some (address s)) None = Inr ()"
    using d by (simp add: validate_dest n_def)
  have top: "onPeerHandshakeMessage E buf s =
      (if source n = SALTYRTC_ADDR_SERVER then onServerMessage E buf s
       else if source n = SALTYRTC_ADDR_INITIATOR then onInitiatorMessage E buf s
       else if source n \<ge> 0x02 \<and> source n \<le> 0xff then onResponderMessage E buf n s
       else abort E s)"
    unfolding onPeerHandshakeMessage_def n_def [symmetric] Let_def
    by (simp add: seq_def lift_def v)
  have "aborted s (onPeerHandshakeMessage E buf s)"
    using f
  proof (cases rule: failure.cases)
    case from_initiator_not_responder
    then show ?thesis
      unfolding top n_def
      by (simp add: SALTYRTC_ADDR_SERVER_def SALTYRTC_ADDR_INITIATOR_def onInitiatorMessage_def
          aborted_seq aborted_abort w)
  next
    case from_responder_not_initiator
    then show ?thesis
      unfolding top n_def
      by (simp add: SALTYRTC_ADDR_SERVER_def SALTYRTC_ADDR_INITIATOR_def onResponderMessage_def
          aborted_seq aborted_abort w)
  next
    case invalid_source
    then show ?thesis
      unfolding top n_def
      by (simp add: SALTYRTC_ADDR_SERVER_def SALTYRTC_ADDR_INITIATOR_def aborted_abort w)
  next
    case (responder_key_decryption box)
    then show ?thesis
      unfolding top n_def
      by (simp add: SALTYRTC_ADDR_SERVER_def SALTYRTC_ADDR_INITIATOR_def onInitiatorMessage_def
          seq_def lift_def abort_run w decrypt_def aborted_def resetConnection_def Let_def)
  next
    case (responder_session_decryption box sk)
    then show ?thesis
      unfolding top n_def
      by (simp add: SALTYRTC_ADDR_SERVER_def SALTYRTC_ADDR_INITIATOR_def onInitiatorMessage_def
          seq_def lift_def abort_run w decrypt_def aborted_def resetConnection_def Let_def)
  next
    case (responder_key_type box d m t)
    then show ?thesis
      unfolding top n_def
      by (simp add: SALTYRTC_ADDR_SERVER_def SALTYRTC_ADDR_INITIATOR_def onInitiatorMessage_def
          seq_def lift_def ok_def abort_run w decrypt_def decode_typed assertType_def
          aborted_def resetConnection_def Let_def)
  next
    case (responder_auth_type box sk d m t)
    then show ?thesis
      unfolding top n_def
      by (simp add: SALTYRTC_ADDR_SERVER_def SALTYRTC_ADDR_INITIATOR_def onInitiatorMessage_def
          seq_def lift_def ok_def abort_run w decrypt_def decode_typed assertType_def
          aborted_def resetConnection_def Let_def)
  next
    case (responder_auth_cookie box sk d m cp)
    then show ?thesis
      unfolding top n_def
      by (simp add: SALTYRTC_ADDR_SERVER_def SALTYRTC_ADDR_INITIATOR_def onInitiatorMessage_def
          seq_def lift_def ok_def abort_run w decrypt_def decode_typed assertType_def
          verify_cookie_def aborted_def resetConnection_def Let_def)
  next
    case (responder_auth_same_cookie box sk d m cp)
    obtain x where x: "ws s = Some x" using w by auto
    from responder_auth_same_cookie show ?thesis
      unfolding top n_def aborted_def
      by (simp add: SALTYRTC_ADDR_SERVER_def SALTYRTC_ADDR_INITIATOR_def onInitiatorMessage_def
          seq_def lift_def ok_def abort_def decrypt_def decode_typed assertType_def modify_def
          verify_cookie_def ensure_cookies_differ_def ws_call_def x resetConnection_def Let_def)
  next
    case (initiator_token_decryption mp r box)
    then show ?thesis
      unfolding top n_def
      by (simp add: SALTYRTC_ADDR_SERVER_def SALTYRTC_ADDR_INITIATOR_def onResponderMessage_def
          onResponderToken_def
          seq_def lift_def abort_run w decrypt_def aborted_def resetConnection_def Let_def)
  next
    case (initiator_token_type mp r box d m t)
    then show ?thesis
      unfolding top n_def
      by (simp add: SALTYRTC_ADDR_SERVER_def SALTYRTC_ADDR_INITIATOR_def onResponderMessage_def
          onResponderToken_def
          seq_def lift_def ok_def abort_run w decrypt_def decode_typed assertType_def
          aborted_def resetConnection_def Let_def)
  next
    case (initiator_key_decryption mp r box)
    then show ?thesis
      unfolding top n_def
      by (simp add: SALTYRTC_ADDR_SERVER_def SALTYRTC_ADDR_INITIATOR_def onResponderMessage_def
          onResponderKey_def
          seq_def lift_def abort_run w decrypt_def aborted_def resetConnection_def Let_def)
  next
    case (initiator_key_type mp r box d m t)
    then show ?thesis
      unfolding top n_def
      by (simp add: SALTYRTC_ADDR_SERVER_def SALTYRTC_ADDR_INITIATOR_def onResponderMessage_def
          onResponderKey_def
          seq_def lift_def ok_def abort_run w decrypt_def decode_typed assertType_def
          aborted_def resetConnection_def Let_def)
  next
    case (initiator_key_same_cookie mp r box d m cp)
    obtain x where x: "ws s = Some x" using w by auto
    from initiator_key_same_cookie show ?thesis
      unfolding top n_def aborted_def
      by (simp add: SALTYRTC_ADDR_SERVER_def SALTYRTC_ADDR_INITIATOR_def onResponderMessage_def
          onResponderKey_def store_responder_def modify_def
          seq_def lift_def ok_def abort_def decrypt_def decode_typed assertType_def
          ensure_cookies_differ_def ws_call_def x resetConnection_def Let_def)
  next
    case (initiator_auth_decryption mp r box)
    then show ?thesis
      unfolding top n_def
      by (simp add: SALTYRTC_ADDR_SERVER_def SALTYRTC_ADDR_INITIATOR_def onResponderMessage_def
          onResponderAuth_def
          seq_def lift_def abort_run w decrypt_def aborted_def resetConnection_def Let_def)
  next
    case (initiator_auth_type mp r box d m t)
    then show ?thesis
      unfolding top n_def
      by (simp add: SALTYRTC_ADDR_SERVER_def SALTYRTC_ADDR_INITIATOR_def onResponderMessage_def
          onResponderAuth_def
          seq_def lift_def ok_def abort_run w decrypt_def decode_typed assertType_def
          aborted_def resetConnection_def Let_def)
  next
    case (initiator_auth_cookie mp r box d m cp)
    then show ?thesis
      unfolding top n_def
      by (simp add: SALTYRTC_ADDR_SERVER_def SALTYRTC_ADDR_INITIATOR_def onResponderMessage_def
          onResponderAuth_def
          seq_def lift_def ok_def abort_run w decrypt_def decode_typed assertType_def
          verify_cookie_def aborted_def resetConnection_def Let_def)
  qed
  then show ?thesis by (simp add: aborted_def)
qed

subsection \<open>Electing a responder\<close>





text \<open>
  A sequence in range has room for as many steps as its 48-bit value is below the
  limit; a fresh sequence has room for any number of steps below \<open>2\<^sup>3\<^sup>2\<close>.
\<close>

lemma advance_value:
  assumes "0 \<le> sequenceNumber c" and "sequenceNumber c < SEQUENCE_NUMBER_MAX"
  shows "0 \<le> sequenceNumber (advance c) \<and> sequenceNumber (advance c) < SEQUENCE_NUMBER_MAX \<and>
         overflow (advance c) * SEQUENCE_NUMBER_MAX + sequenceNumber (advance c) =
           overflow c * SEQUENCE_NUMBER_MAX + sequenceNumber c + 1"
  using assms by (auto simp: advance_def SEQUENCE_NUMBER_MAX_def)

lemma funpow_advance_value:
  assumes "0 \<le> sequenceNumber c" and "sequenceNumber c < SEQUENCE_NUMBER_MAX"
  shows "0 \<le> sequenceNumber ((advance ^^ n) c) \<and>
         sequenceNumber ((advance ^^ n) c) < SEQUENCE_NUMBER_MAX \<and>
         overflow ((advance ^^ n) c) * SEQUENCE_NUMBER_MAX + sequenceNumber ((advance ^^ n) c) =
           overflow c * SEQUENCE_NUMBER_MAX + sequenceNumber c + int n"
proof (induction n)
  case 0
  then show ?case using assms by simp
next
  case (Suc n)
  then show ?case using advance_value [of "(advance ^^ n) c"] by simp
qed

lemma advance_room:
  assumes "0 \<le> sequenceNumber c" and "sequenceNumber c < SEQUENCE_NUMBER_MAX"
    and "overflow c * SEQUENCE_NUMBER_MAX + sequenceNumber c + int n
           < OVERFLOW_MAX * SEQUENCE_NUMBER_MAX"
  shows "overflow ((advance ^^ n) c) < OVERFLOW_MAX"
proof -
  from funpow_advance_value [OF assms(1,2), of n] assms(3)
  have "overflow ((advance ^^ n) c) * SEQUENCE_NUMBER_MAX < OVERFLOW_MAX * SEQUENCE_NUMBER_MAX"
    by linarith
  then show ?thesis by (simp add: SEQUENCE_NUMBER_MAX_def)
qed

lemma fresh_sequence_room:
  "n < 2 ^ 32 \<Longrightarrow> overflow ((advance ^^ n) (CombinedSequence_new r)) < OVERFLOW_MAX"
proof -
  assume n: "n < 2 ^ 32"
  have r: "0 \<le> uint r" "uint r < 2 ^ 32"
    using uint_lt2p [of r] by simp_all
  have "int n < 2 ^ 32" using n by (metis of_nat_less_iff of_nat_numeral of_nat_power)
  then show ?thesis
    using r by (intro advance_room)
      (simp_all add: CombinedSequence_new_def SEQUENCE_NUMBER_MAX_def OVERFLOW_MAX_def)
qed

lemma drop_packet_frame [simp]:
  "drop_packet E (s\<lparr>serverCombinedSequence := a\<rparr>) = drop_packet E s"
  "drop_packet E (s\<lparr>trace := b\<rparr>) = drop_packet E s"
  "drop_packet E (s\<lparr>responders := c\<rparr>) = drop_packet E s"
  by (simp_all add: drop_packet_def fun_eq_iff)





lemma drop_packet_frame2 [simp]:
  "drop_packet E (s\<lparr>responder := a\<rparr>) = drop_packet E s"
  "drop_packet E (s\<lparr>sessionKey := b\<rparr>) = drop_packet E s"
  by (simp_all add: drop_packet_def fun_eq_iff)


section \<open>Worked examples\<close>

subsection \<open>Packets for a responder\<close>

lemma create_nonce_responder:
  "0x02 \<le> receiver \<Longrightarrow> receiver \<le> 0xff \<Longrightarrow> responders s = Some m \<Longrightarrow>
   Map_get m receiver = Some r \<Longrightarrow> cookiePair s = Some cp \<Longrightarrow>
   create_nonce receiver s =
     (Inr \<lparr>cookie = ours cp, Nonce.overflow = overflow (combinedSequence r),
           Nonce.sequenceNumber = sequenceNumber (combinedSequence r),
           source = address s, destination = receiver\<rparr>, s)"
  by (simp add: create_nonce_def choose_csn_def seq_def SALTYRTC_ADDR_SERVER_def
      SALTYRTC_ADDR_INITIATOR_def)

lemma demo_packet_to_responder:
  "type' msg' \<noteq> Some ''key'' \<Longrightarrow>
   buildPacket demo msg' 2 True demo_initiator =
     (Inr (replicate 16 1 @ [1, 2, 0, 0, 0, 0, 0, 5] @ [114] @ demo_msgpack_encode msg'),
      demo_initiator)"
  "type' msg' = Some ''key'' \<Longrightarrow>
   buildPacket demo msg' 2 True demo_initiator =
     (Inr (replicate 16 1 @ [1, 2, 0, 0, 0, 0, 0, 5] @ [3] @ demo_msgpack_encode msg'),
      demo_initiator)"
proof -
  have n: "create_nonce 2 demo_initiator =
     (Inr \<lparr>cookie = replicate 16 1, Nonce.overflow = 0, Nonce.sequenceNumber = 5,
           source = 1, destination = 2\<rparr>, demo_initiator)"
    by (simp add: create_nonce_def choose_csn_def seq_def SALTYRTC_ADDR_SERVER_def
        SALTYRTC_ADDR_INITIATOR_def demo_initiator_def Map_get_def demo_responder_def)
  have r: "responders demo_initiator =
      Some [(2, demo_responder 2 R_key_received), (3, demo_responder 3 R_new),
            (4, demo_responder 4 R_new)]"
    and pk: "permanentKey demo_initiator = \<lparr>secretKeyBytes = [1], publicKeyArray = [1]\<rparr>"
    by (simp_all add: demo_initiator_def)
  show "type' msg' \<noteq> Some ''key'' \<Longrightarrow>
   buildPacket demo msg' 2 True demo_initiator =
     (Inr (replicate 16 1 @ [1, 2, 0, 0, 0, 0, 0, 5] @ [114] @ demo_msgpack_encode msg'),
      demo_initiator)"
    by (simp add: buildPacket_def seq_def n Let_def encrypt_packet_def SALTYRTC_ADDR_SERVER_def
        SALTYRTC_ADDR_INITIATOR_def r pk Map_get_def demo_responder_def demo_def
        demo_Nonce_toArrayBuffer_def demo_Box_toUint8Array_def demo_tag_def)
  show "type' msg' = Some ''key'' \<Longrightarrow>
   buildPacket demo msg' 2 True demo_initiator =
     (Inr (replicate 16 1 @ [1, 2, 0, 0, 0, 0, 0, 5] @ [3] @ demo_msgpack_encode msg'),
      demo_initiator)"
    by (simp add: buildPacket_def seq_def n Let_def encrypt_packet_def SALTYRTC_ADDR_SERVER_def
        SALTYRTC_ADDR_INITIATOR_def r pk Map_get_def demo_responder_def demo_def
        demo_Nonce_toArrayBuffer_def demo_Box_toUint8Array_def demo_tag_def)
qed

text \<open>
  Claim C2. \<open>buildPacket\<close> is claimed to advance the responder's sequence with \<open>next()\<close>
  for every packet to a receiver in \<open>0x02\<close> to \<open>0xff\<close>, so that successive packets carry
  increasing pairs. For such a receiver the code takes the responder's
  \<open>combinedSequence\<close> as it stands: the \<open>key\<close> and the \<open>auth\<close> packet the initiator builds one
  after the other for responder \<open>0x02\<close> carry the same nonce, overflow 0 and sequence
  number 5, and the engine, with the responder's sequence in it, is unchanged.
\<close>

theorem responder_nonce_repeats:
  "seq (buildPacket demo (Key_message [12]) 2 True) (\<lambda>p1.
     seq (buildPacket demo (Auth_message (replicate 16 2)) 2 True) (\<lambda>p2.
       ok (Nonce_fromArrayBuffer demo (take 24 p1), Nonce_fromArrayBuffer demo (take 24 p2))))
     demo_initiator =
     (Inr (\<lparr>cookie = replicate 16 1, Nonce.overflow = 0, Nonce.sequenceNumber = 5,
            source = 1, destination = 2\<rparr>,
           \<lparr>cookie = replicate 16 1, Nonce.overflow = 0, Nonce.sequenceNumber = 5,
            source = 1, destination = 2\<rparr>),
      demo_initiator)"
proof -
  have k: "type' (Key_message [12]) = Some ''key''"
    and a: "type' (Auth_message (replicate 16 2)) \<noteq> Some ''key''"
    by (simp_all add: Key_message_def Auth_message_def message_of_type_def)
  have p: "Nonce_fromArrayBuffer demo (replicate 16 1 @ [1, 2, 0, 0, 0, 0, 0, 5]) =
           \<lparr>cookie = replicate 16 1, Nonce.overflow = 0, Nonce.sequenceNumber = 5,
            source = 1, destination = 2\<rparr>"
    by (simp add: demo_def demo_Nonce_fromArrayBuffer_def byte_at_def nth_append)
  show ?thesis
    by (simp add: seq_def ok_def p demo_packet_to_responder(2) [OF k]
        demo_packet_to_responder(1) [OF a])
qed

subsection \<open>Frames of the examples\<close>

lemma demo_nonce:
  "Nonce_fromArrayBuffer demo (take 24 (demo_frame src dst ct)) =
     \<lparr>cookie = replicate 16 2, Nonce.overflow = 0, Nonce.sequenceNumber = 1,
      source = unat (of_nat src :: byte), destination = unat (of_nat dst :: byte)\<rparr>"
  by (simp add: demo_def demo_frame_def demo_Nonce_fromArrayBuffer_def byte_at_def
      nth_append)

lemma demo_box:
  "ct \<noteq> [] \<Longrightarrow> Box_fromUint8Array demo (demo_frame src dst ct) 24 =
     Inr \<lparr>nonce = replicate 16 2 @ [of_nat src, of_nat dst, 0, 0, 0, 0, 0, 1], ciphertext = ct\<rparr>"
  by (simp add: demo_def demo_frame_def demo_Box_fromUint8Array_def)

lemma demo_bad_server_frame:
  "KeyStore_decrypt demo (permanentKey demo_initiator)
     \<lparr>nonce = nb, ciphertext = demo_bad_ciphertext\<rparr> (serverKey demo_initiator)
   = Inl (Thrown ''decryption-failed'')"
  by (simp add: demo_def demo_open_def demo_tag_def demo_initiator_def demo_bad_ciphertext_def)

text \<open>
  Claim C4, as stated, fails on a nonce destination mismatch: a frame for address
  \<open>0x05\<close> arriving at the initiator (address \<open>0x01\<close>) makes the handler throw
  \<open>'bad-nonce-destination'\<close> from \<open>validateNonce\<close>, and the engine is exactly as before:
  still in the peer handshake, the socket open, nothing called on it. The same holds
  for a frame from the server that fails to decrypt: \<open>'decryption-failed'\<close> is thrown as
  it comes from the key store.
\<close>

theorem nonce_destination_mismatch_does_not_abort:
  "onPeerHandshakeMessage demo (demo_frame 2 5 demo_auth_ciphertext) demo_initiator =
     (Inl (Thrown ''bad-nonce-destination''), demo_initiator)
   \<and> onPeerHandshakeMessage demo (demo_frame 0 1 demo_bad_ciphertext) demo_initiator =
     (Inl (Thrown ''decryption-failed''), demo_initiator)
   \<and> state demo_initiator = State_peer_handshake \<and> ws demo_initiator = Some WebSocket
   \<and> trace demo_initiator = []"
proof -
  have "validateNonce (Nonce_fromArrayBuffer demo (take 24 (demo_frame 2 5 demo_auth_ciphertext)))
          (Some (address demo_initiator)) None = Inl (Thrown ''bad-nonce-destination'')"
    unfolding demo_nonce by (simp add: validateNonce_def demo_initiator_def)
  then have dest: "onPeerHandshakeMessage demo (demo_frame 2 5 demo_auth_ciphertext) demo_initiator =
     (Inl (Thrown ''bad-nonce-destination''), demo_initiator)"
    by (simp add: onPeerHandshakeMessage_def Let_def seq_def lift_def)
  have ne: "demo_bad_ciphertext \<noteq> []" by (simp add: demo_bad_ciphertext_def)
  have a: "address demo_initiator = 1" by (simp add: demo_initiator_def)
  have srv: "onPeerHandshakeMessage demo (demo_frame 0 1 demo_bad_ciphertext) demo_initiator =
     (Inl (Thrown ''decryption-failed''), demo_initiator)"
    unfolding onPeerHandshakeMessage_def demo_nonce Let_def
    by (simp add: seq_def lift_def validateNonce_def SALTYRTC_ADDR_SERVER_def
        onServerMessage_def demo_box [OF ne] demo_bad_server_frame a)
  show ?thesis using dest srv by (simp add: demo_initiator_def)
qed

theorem server_hello_cookie_pair_witness:
  "Cookie_new demo (entropy (demo_initiator\<lparr>address := 0, entropy := 2\<rparr>) + 0) = replicate 16 2 \<and>
   Cookie_new demo (entropy (demo_initiator\<lparr>address := 0, entropy := 2\<rparr>) + 1) \<noteq> replicate 16 2 \<and>
   serverHandshake_hello demo (demo_frame 0 0 [7, 0, 1, 50])
       (demo_initiator\<lparr>address := 0, entropy := 2\<rparr>) =
     Some (Inr (),
           demo_initiator\<lparr>address := 0, serverKey := Some [50],
             cookiePair := Some \<lparr>ours = replicate 16 3, theirs = replicate 16 2\<rparr>,
             entropy := 4\<rparr>)"
proof -
  define s where "s = demo_initiator\<lparr>address := 0, entropy := 2\<rparr>"
  define hello where
    "hello = \<lparr>type' = Some ''server-hello'', key = [50], your_cookie = [], Message.id = 0\<rparr>"
  have e: "entropy s = 2" by (simp add: s_def)
  have h1: "msgpack_decode demo (drop 24 (demo_frame 0 0 [7, 0, 1, 50])) = Inr hello"
    by (simp add: demo_def demo_frame_def demo_msgpack_decode_def demo_type_of_tag_def hello_def)
  have h2: "type' hello = Some ''server-hello''" by (simp add: hello_def)
  have h3: "destination (Nonce_fromArrayBuffer demo (take 24 (demo_frame 0 0 [7, 0, 1, 50])))
            = address s"
    unfolding demo_nonce by (simp add: s_def)
  have h4: "source (Nonce_fromArrayBuffer demo (take 24 (demo_frame 0 0 [7, 0, 1, 50]))) = 0"
    unfolding demo_nonce by simp
  have c: "cookie (Nonce_fromArrayBuffer demo (take 24 (demo_frame 0 0 [7, 0, 1, 50])))
           = replicate 16 2"
    unfolding demo_nonce by simp
  have d0: "Cookie_new demo (entropy s + 0) = replicate 16 2"
    by (simp add: demo_def e)
  have d1: "Cookie_new demo (entropy s + 1) = replicate 16 3"
    by (simp add: demo_def e)
  have r: "replicate 16 (3 :: byte) \<noteq> replicate 16 2"
    by (simp add: numeral_eq_Suc)
  have h5: "Cookie_new demo (entropy s + 1)
            \<noteq> cookie (Nonce_fromArrayBuffer demo (take 24 (demo_frame 0 0 [7, 0, 1, 50])))"
    unfolding c d1 by (rule r)
  from server_hello_cookie_pair [OF h1 h2 h3 h4 h5] obtain k where
    k: "k \<le> 1" and at: "Cookie_new demo (entropy s + k) \<noteq> replicate 16 2"
    and run: "serverHandshake_hello demo (demo_frame 0 0 [7, 0, 1, 50]) s =
             Some (Inr (),
                   s\<lparr>serverKey := Some (key hello),
                     cookiePair := Some \<lparr>ours = Cookie_new demo (entropy s + k),
                                         theirs = replicate 16 2\<rparr>,
                     entropy := entropy s + k + 1\<rparr>)"
    unfolding c by blast
  have "k \<noteq> 0"
  proof
    assume "k = 0"
    with at have "Cookie_new demo (entropy s + 0) \<noteq> replicate 16 2" by simp
    with d0 show False by simp
  qed
  with k have k1: "k = 1" by simp
  have "serverHandshake_hello demo (demo_frame 0 0 [7, 0, 1, 50]) s =
     Some (Inr (),
           demo_initiator\<lparr>address := 0, serverKey := Some [50],
             cookiePair := Some \<lparr>ours = replicate 16 3, theirs = replicate 16 2\<rparr>,
             entropy := 4\<rparr>)"
    unfolding run k1 d1 by (simp add: s_def hello_def)
  then show ?thesis using d0 d1 r unfolding s_def by simp
qed

theorem peer_handshake_failure_aborts_witness:
  "failure demo (demo_frame 2 1 demo_bad_ciphertext) demo_initiator Decryption_failure \<and>
   ws demo_initiator \<noteq> None \<and>
   (\<exists>s' pre.
      onPeerHandshakeMessage demo (demo_frame 2 1 demo_bad_ciphertext) demo_initiator =
        (Inl (Error ''Aborting due to a protocol error''), s') \<and>
      state s' = State_new \<and> ws s' = None \<and>
      trace s' = trace demo_initiator @ pre @
        [WsRemoveMessageListener OnPeerHandshakeMessage, WsClose])"
proof -
  have src: "source (Nonce_fromArrayBuffer demo (take 24 (demo_frame 2 1 demo_bad_ciphertext))) = 2"
    and dst: "destination (Nonce_fromArrayBuffer demo (take 24 (demo_frame 2 1 demo_bad_ciphertext)))
              = address demo_initiator"
    unfolding demo_nonce by (simp_all add: demo_initiator_def)
  have bx: "Box_fromUint8Array demo (demo_frame 2 1 demo_bad_ciphertext) 24 =
     Inr \<lparr>nonce = replicate 16 2 @ [of_nat 2, of_nat 1, 0, 0, 0, 0, 0, 1],
          ciphertext = demo_bad_ciphertext\<rparr>"
    by (rule demo_box) (simp add: demo_bad_ciphertext_def)
  have p1: "0x02 \<le> source (Nonce_fromArrayBuffer demo (take 24 (demo_frame 2 1 demo_bad_ciphertext)))"
    and p2: "source (Nonce_fromArrayBuffer demo (take 24 (demo_frame 2 1 demo_bad_ciphertext))) \<le> 0xff"
    unfolding src by simp_all
  have p3: "role demo_initiator = Initiator" by (simp add: demo_initiator_def)
  have p4: "responders demo_initiator =
      Some [(2, demo_responder 2 R_key_received), (3, demo_responder 3 R_new),
            (4, demo_responder 4 R_new)]"
    by (simp add: demo_initiator_def)
  have p5: "Map_get [(2, demo_responder 2 R_key_received), (3, demo_responder 3 R_new),
                     (4, demo_responder 4 R_new)]
              (source (Nonce_fromArrayBuffer demo (take 24 (demo_frame 2 1 demo_bad_ciphertext))))
            = Some (demo_responder 2 R_key_received)"
    unfolding src by (simp add: Map_get_def)
  have p6: "Responder.state (demo_responder 2 R_key_received) = R_key_received"
    by (simp add: demo_responder_def)
  have p8: "KeyStore_decrypt demo (keyStore (demo_responder 2 R_key_received))
            \<lparr>nonce = replicate 16 2 @ [of_nat 2, of_nat 1, 0, 0, 0, 0, 0, 1],
             ciphertext = demo_bad_ciphertext\<rparr>
            (Responder.sessionKey (demo_responder 2 R_key_received))
          = Inl (Thrown ''decryption-failed'')"
    by (simp add: demo_def demo_open_def demo_tag_def demo_responder_def
        demo_bad_ciphertext_def)
  have f: "failure demo (demo_frame 2 1 demo_bad_ciphertext) demo_initiator Decryption_failure"
    by (rule initiator_auth_decryption [OF p1 p2 p3 p4 p5 p6 bx p8])
  have w: "ws demo_initiator \<noteq> None" by (simp add: demo_initiator_def)
  show ?thesis using peer_handshake_failure_aborts [OF f w dst] f w by simp
qed



end
